theory Spec2Isabelle
  imports Main
begin

section \<open>The data the two endpoints handle\<close>

text \<open>
  The repository holds two Go programs: the serverless function \<open>check-ssl.go\<close> with
  \<open>handler\<close> (Endpoint A, the certificate chain inspector), and \<open>main.go\<close> with
  \<open>handleRequest\<close> (Endpoint B, the expiry line). Both talk to the network and to
  Go's standard library. The network and the opaque library functions are the fields
  of the record \<open>env\<close>; every call the code makes with an effect is logged, in order,
  in a list of \<open>call\<close> values returned next to the response, so that a property of
  "what was dialled" or "what was verified" is a property of that list.
\<close>

subsection \<open>Go values\<close>

text \<open>
  A \<open>time.Time\<close> is an instant together with the location it is displayed in;
  \<open>t.UTC()\<close> keeps the instant and sets the location to UTC.
\<close>

datatype Location = UTC | Local | FixedZone string int

record Time =
  unixNano :: int
  loc :: Location

definition Time_UTC :: "Time \<Rightarrow> Time" where
  "Time_UTC t = t\<lparr>loc := UTC\<rparr>"

text \<open>\<open>pkix.Name\<close>: the attribute/value pairs of a distinguished name.\<close>

type_synonym pkix_Name = "(string \<times> string) list"

text \<open>The fields of \<open>x509.Certificate\<close> that the code reads.\<close>

record Certificate =
  x509_Subject :: pkix_Name
  x509_Issuer :: pkix_Name
  x509_NotBefore :: Time
  x509_NotAfter :: Time
  x509_DNSNames :: "string list"
  x509_IsCA :: bool
  x509_SignatureAlgorithm :: nat

text \<open>
  \<open>x509.CertPool\<close>: the certificates added so far, in order. \<open>AddCert\<close> skips a
  certificate the pool already holds.
\<close>

type_synonym CertPool = "Certificate list"

definition NewCertPool :: CertPool where
  "NewCertPool = []"

definition AddCert :: "CertPool \<Rightarrow> Certificate \<Rightarrow> CertPool" where
  "AddCert s cert = (if cert \<in> set s then s else s @ [cert])"

text \<open>
  \<open>x509.VerifyOptions\<close>. \<open>Roots = None\<close> is Go's nil: the verifier then uses the
  host's trusted root set.
\<close>

record VerifyOptions =
  DNSName :: string
  Intermediates :: CertPool
  Roots :: "CertPool option"

record tls_Config =
  ServerName :: string
  InsecureSkipVerify :: bool

text \<open>\<open>net.Dialer\<close>; \<open>Timeout\<close> is a \<open>time.Duration\<close> in nanoseconds, 0 for none.\<close>

record Dialer =
  Timeout :: int

definition Second :: int where
  "Second = 1000000000"

text \<open>The fields of \<open>url.URL\<close> that the code reads.\<close>

record URL =
  Scheme :: string
  Host :: string

subsection \<open>The structs of check-ssl.go\<close>

record CertInfo =
  Subject :: string
  Issuer :: string
  NotBefore :: Time
  NotAfter :: Time
  DNSNames :: "string list"
  IsCA :: bool
  SignatureAlgo :: string

record Response =
  TargetURL :: string
  Certificates :: "CertInfo list"
  ChainValidation :: string

record APIGatewayProxyRequest =
  QueryStringParameters :: "string \<rightharpoonup> string"

record APIGatewayProxyResponse =
  StatusCode :: nat
  Body :: string
  Headers :: "string \<rightharpoonup> string"

subsection \<open>The outside world\<close>

text \<open>
  What the peer at a dial target does with a TLS connection attempt: the attempt fails
  with an error, the peer accepts the connection and never completes the handshake, or
  the handshake completes after some nanoseconds with a certificate chain.
\<close>

datatype peer_behaviour =
  DialError string
  | NeverCompletes
  | CompletesAfter int "Certificate list"

record Conn =
  PeerCertificates :: "Certificate list"

text \<open>The messages \<open>handleRequest\<close> prints in debug mode (Korean text in the source).\<close>

datatype debug_msg =
  NoURLParameter
  | InvalidURLFormat "string option"
  | ServerConnectError string
  | NoCertificatesFound

datatype call =
  TLSDial Dialer string string "tls_Config option"
  | X509Verify "Certificate list" VerifyOptions
  | JSONMarshalIndent Response
  | ConnClose
  | DebugPrint debug_msg

text \<open>
  An error is its message (\<open>err.Error()\<close>). \<open>url_Parse\<close> is \<open>url.Parse\<close>;
  \<open>tls_peer network address config\<close> is what the peer does;
  \<open>x509_Verify\<close> is the verifier, with the host's roots and clock inside it, \<open>None\<close>
  for a nil error; \<open>json_MarshalIndent\<close> is \<open>json.MarshalIndent(v, "", "  ")\<close>.
\<close>

record env =
  url_Parse :: "string \<Rightarrow> string + URL"
  tls_peer :: "string \<Rightarrow> string \<Rightarrow> tls_Config option \<Rightarrow> peer_behaviour"
  dial_timeout_error :: string
  x509_Verify :: "Certificate list \<Rightarrow> VerifyOptions \<Rightarrow> string option"
  Name_String :: "pkix_Name \<Rightarrow> string"
  SignatureAlgorithm_String :: "nat \<Rightarrow> string"
  json_MarshalIndent :: "Response \<Rightarrow> string + string"
  Time_Format_RFC3339 :: "Time \<Rightarrow> string"

section \<open>Library functions with a definite behaviour\<close>

text \<open>
  \<open>tls.DialWithDialer\<close>: a timeout given in the dialer applies to the connection and
  the handshake as a whole; with no timeout the call waits for the handshake as long as
  it takes. The result \<open>None\<close> is a call that never returns.
\<close>

definition tls_DialWithDialer ::
  "env \<Rightarrow> Dialer \<Rightarrow> string \<Rightarrow> string \<Rightarrow> tls_Config option \<Rightarrow> (string + Conn) option" where
  "tls_DialWithDialer e dialer network addr config =
     (case tls_peer e network addr config of
        DialError err \<Rightarrow> Some (Inl err)
      | NeverCompletes \<Rightarrow>
          (if Timeout dialer \<noteq> 0 then Some (Inl (dial_timeout_error e)) else None)
      | CompletesAfter t certs \<Rightarrow>
          (if Timeout dialer \<noteq> 0 \<and> Timeout dialer \<le> t then Some (Inl (dial_timeout_error e))
           else Some (Inr \<lparr>PeerCertificates = certs\<rparr>)))"

text \<open>\<open>tls.Dial\<close> is \<open>DialWithDialer\<close> with a fresh \<open>net.Dialer\<close>, whose timeout is 0.\<close>

definition tls_Dial :: "env \<Rightarrow> string \<Rightarrow> string \<Rightarrow> tls_Config option \<Rightarrow> (string + Conn) option" where
  "tls_Dial e network addr config = tls_DialWithDialer e \<lparr>Timeout = 0\<rparr> network addr config"

text \<open>
  \<open>net.JoinHostPort\<close>: a host with a colon in it is taken for an IPv6 literal and put
  in square brackets.
\<close>

definition net_JoinHostPort :: "string \<Rightarrow> string \<Rightarrow> string" where
  "net_JoinHostPort host port =
     (if CHR '':'' \<in> set host then ''['' @ host @ '']:'' @ port else host @ '':'' @ port)"

text \<open>
  \<open>(*URL).Hostname\<close> and \<open>(*URL).Port\<close> of net/url: both split \<open>u.Host\<close> at its
  last colon when what follows the colon is empty or all digits; \<open>Hostname\<close> also drops
  the square brackets of an IPv6 literal.
\<close>

fun LastIndexByte :: "string \<Rightarrow> char \<Rightarrow> nat option" where
  "LastIndexByte [] c = None"
| "LastIndexByte (x # xs) c =
     (case LastIndexByte xs c of
        Some i \<Rightarrow> Some (Suc i)
      | None \<Rightarrow> (if x = c then Some 0 else None))"

definition validOptionalPort :: "string \<Rightarrow> bool" where
  "validOptionalPort port =
     (case port of
        [] \<Rightarrow> True
      | p # rest \<Rightarrow> p = CHR '':'' \<and> list_all (\<lambda>b. b \<in> set ''0123456789'') rest)"

definition HasPrefix :: "string \<Rightarrow> string \<Rightarrow> bool" where
  "HasPrefix s pre = (take (length pre) s = pre)"

definition HasSuffix :: "string \<Rightarrow> string \<Rightarrow> bool" where
  "HasSuffix s suf = (length suf \<le> length s \<and> drop (length s - length suf) s = suf)"

definition splitHostPort :: "string \<Rightarrow> string \<times> string" where
  "splitHostPort hostPort =
     (let (host, port) =
            (case LastIndexByte hostPort (CHR '':'') of
               Some colon \<Rightarrow>
                 (if validOptionalPort (drop colon hostPort)
                  then (take colon hostPort, drop (colon + 1) hostPort)
                  else (hostPort, ''''))
             | None \<Rightarrow> (hostPort, ''''))
      in (if HasPrefix host ''['' \<and> HasSuffix host '']''
          then (take (length host - 2) (drop 1 host), port)
          else (host, port)))"

definition URL_Hostname :: "URL \<Rightarrow> string" where
  "URL_Hostname u = fst (splitHostPort (Host u))"

definition URL_Port :: "URL \<Rightarrow> string" where
  "URL_Port u = snd (splitHostPort (Host u))"

section \<open>Endpoint A: \<open>handler\<close> of check-ssl.go\<close>

text \<open>
  \<open>createErrorResponse\<close> formats the message into a JSON object by string
  interpolation. Its second result, the Go error, is always nil and is left out.
\<close>

definition createErrorResponse :: "nat \<Rightarrow> string \<Rightarrow> APIGatewayProxyResponse" where
  "createErrorResponse statusCode message =
     \<lparr>StatusCode = statusCode,
      Body = ''{\"error\": \"'' @ message @ ''\"}'',
      Headers = [''Content-Type'' \<mapsto> ''application/json'']\<rparr>"

text \<open>Reading a key of a Go map of strings: a missing key reads as the empty string.\<close>

definition param :: "(string \<rightharpoonup> string) \<Rightarrow> string \<Rightarrow> string" where
  "param m k = (case m k of None \<Rightarrow> '''' | Some v \<Rightarrow> v)"

text \<open>
  Lines 53 to 56: the \<open>url\<close> parameter is replaced by the host of its parse only when
  the parse succeeds and that host is not empty.
\<close>

definition handler_hostname :: "env \<Rightarrow> string \<Rightarrow> string" where
  "handler_hostname e hostname =
     (case url_Parse e hostname of
        Inr parsedURL \<Rightarrow> (if Host parsedURL \<noteq> '''' then Host parsedURL else hostname)
      | Inl err \<Rightarrow> hostname)"

text \<open>
  Lines 80 to 95: the loop over \<open>certs\<close> that appends one \<open>CertInfo\<close> per certificate;
  the second argument is \<open>certInfos\<close> as built so far.
\<close>

fun certInfos_loop :: "env \<Rightarrow> Certificate list \<Rightarrow> CertInfo list \<Rightarrow> CertInfo list" where
  "certInfos_loop e [] certInfos = certInfos"
| "certInfos_loop e (cert # rest) certInfos =
     (let info = \<lparr>Subject = Name_String e (x509_Subject cert),
                  Issuer = Name_String e (x509_Issuer cert),
                  NotBefore = Time_UTC (x509_NotBefore cert),
                  NotAfter = Time_UTC (x509_NotAfter cert),
                  DNSNames = [],
                  IsCA = x509_IsCA cert,
                  SignatureAlgo = SignatureAlgorithm_String e (x509_SignatureAlgorithm cert)\<rparr>;
          info = (if length certInfos = 0 then info\<lparr>DNSNames := x509_DNSNames cert\<rparr> else info)
      in certInfos_loop e rest (certInfos @ [info]))"

text \<open>
  Lines 99 to 103: the loop that adds every certificate but the one at index 0 to the
  pool; the first argument is the index \<open>i\<close> of the range loop.
\<close>

fun intermediates_loop :: "nat \<Rightarrow> Certificate list \<Rightarrow> CertPool \<Rightarrow> CertPool" where
  "intermediates_loop i [] intermediates = intermediates"
| "intermediates_loop i (cert # rest) intermediates =
     intermediates_loop (Suc i) rest (if i > 0 then AddCert intermediates cert else intermediates)"

text \<open>
  The handler. Line 113 calls \<open>Verify\<close> on \<open>certs\<close>, the whole slice, and the model
  passes the verifier what the source passes it. The deferred \<open>conn.Close()\<close> runs on
  every return after the dial has succeeded. The result is the list of calls made and
  the response, \<open>None\<close> when the handler never returns.
\<close>

definition handler :: "env \<Rightarrow> APIGatewayProxyRequest \<Rightarrow> call list \<times> APIGatewayProxyResponse option" where
  "handler e request =
     (let ip = param (QueryStringParameters request) ''ip'';
          hostname = param (QueryStringParameters request) ''url''
      in if ip = '''' \<or> hostname = ''''
         then ([], Some (createErrorResponse 400 ''Query parameters 'ip' and 'url' are required.''))
         else
           let hostname = handler_hostname e hostname;
               address = net_JoinHostPort ip ''443'';
               dialer = \<lparr>Timeout = 5 * Second\<rparr>;
               config = Some \<lparr>ServerName = hostname, InsecureSkipVerify = True\<rparr>;
               dial = TLSDial dialer ''tcp'' address config
           in case tls_DialWithDialer e dialer ''tcp'' address config of
                None \<Rightarrow> ([dial], None)
              | Some (Inl err) \<Rightarrow>
                  ([dial], Some (createErrorResponse 500 (''Failed to connect via TLS: '' @ err)))
              | Some (Inr conn) \<Rightarrow>
                  let certs = PeerCertificates conn
                  in if length certs = 0
                     then ([dial, ConnClose],
                           Some (createErrorResponse 500 ''Server did not provide any certificates.''))
                     else
                       let certInfos = certInfos_loop e certs [];
                           intermediates = intermediates_loop 0 certs NewCertPool;
                           validationOpts = \<lparr>DNSName = hostname, Intermediates = intermediates,
                                             Roots = None\<rparr>;
                           verify = X509Verify certs validationOpts;
                           validationMessage =
                             (case x509_Verify e certs validationOpts of
                                None \<Rightarrow> ''Certificate chain is valid.''
                              | Some err \<Rightarrow> ''Certificate chain verification failed: '' @ err);
                           responsePayload = \<lparr>TargetURL = ''https://'' @ hostname,
                                              Certificates = certInfos,
                                              ChainValidation = validationMessage\<rparr>;
                           marshal = JSONMarshalIndent responsePayload
                       in (case json_MarshalIndent e responsePayload of
                             Inl err \<Rightarrow>
                               ([dial, verify, marshal, ConnClose],
                                Some (createErrorResponse 500 ''Failed to serialize response.''))
                           | Inr jsonBody \<Rightarrow>
                               ([dial, verify, marshal, ConnClose],
                                Some \<lparr>StatusCode = 200, Body = jsonBody,
                                      Headers = [''Content-Type'' \<mapsto> ''application/json'']\<rparr>)))"

section \<open>Endpoint B: \<open>handleRequest\<close> of main.go\<close>

text \<open>
  What the handler leaves in the \<open>http.ResponseWriter\<close>: the status and the body.
  \<open>http.Error\<close> writes the status and the message followed by a newline; a plain
  \<open>w.Write\<close> answers with status 200.
\<close>

record http_response =
  status :: nat
  written :: string

definition http_Error :: "string \<Rightarrow> nat \<Rightarrow> http_response" where
  "http_Error msg code = \<lparr>status = code, written = msg @ [CHR 0x0A]\<rparr>"

text \<open>\<open>url.Values.Get\<close>: the first value of the key, or the empty string.\<close>

definition Values_Get :: "(string \<rightharpoonup> string list) \<Rightarrow> string \<Rightarrow> string" where
  "Values_Get query k = (case query k of None \<Rightarrow> '''' | Some [] \<Rightarrow> '''' | Some (v # vs) \<Rightarrow> v)"

definition debug_print :: "string \<Rightarrow> debug_msg \<Rightarrow> call list" where
  "debug_print debug msg = (if debug = ''true'' then [DebugPrint msg] else [])"

definition handleRequest :: "env \<Rightarrow> (string \<rightharpoonup> string list) \<Rightarrow> call list \<times> http_response option" where
  "handleRequest e query =
     (let rawURL = Values_Get query ''url'';
          debug = Values_Get query ''debug''
      in if rawURL = ''''
         then (debug_print debug NoURLParameter,
               Some (http_Error ''Missing 'url' query parameter'' 400))
         else
           case (case url_Parse e rawURL of
                   Inl err \<Rightarrow> Inl (Some err)
                 | Inr parsedURL \<Rightarrow>
                     (if Scheme parsedURL \<noteq> ''https'' \<or> Host parsedURL = '''' then Inl None
                      else Inr parsedURL)) of
             Inl err \<Rightarrow>
               (debug_print debug (InvalidURLFormat err),
                Some (http_Error ''Invalid 'url' format. Example: https://example.com:8443'' 400))
           | Inr parsedURL \<Rightarrow>
               let host = Host parsedURL;
                   host = (if URL_Port parsedURL = '''' then URL_Hostname parsedURL @ '':443'' else host);
                   dial = TLSDial \<lparr>Timeout = 0\<rparr> ''tcp'' host None
               in (case tls_Dial e ''tcp'' host None of
                     None \<Rightarrow> ([dial], None)
                   | Some (Inl err) \<Rightarrow>
                       ([dial] @ debug_print debug (ServerConnectError err),
                        Some (http_Error ''Failed to connect to the server'' 500))
                   | Some (Inr conn) \<Rightarrow>
                       let certs = PeerCertificates conn
                       in if length certs = 0
                          then ([dial] @ debug_print debug NoCertificatesFound @ [ConnClose],
                                Some (http_Error ''No certificates found'' 500))
                          else
                            let expiry = x509_NotAfter (certs ! 0);
                                response = ''SSL certificate for '' @ rawURL @ '' expires on ''
                                           @ Time_Format_RFC3339 e expiry @ [CHR 0x0A]
                            in ([dial, ConnClose], Some \<lparr>status = 200, written = response\<rparr>)))"

section \<open>Vocabulary of the statements\<close>

text \<open>
  The summary the specification describes for a certificate that is not the first of the
  chain: every field converted, no subject alternative names.
\<close>

definition summary :: "env \<Rightarrow> Certificate \<Rightarrow> CertInfo" where
  "summary e cert =
     \<lparr>Subject = Name_String e (x509_Subject cert),
      Issuer = Name_String e (x509_Issuer cert),
      NotBefore = Time_UTC (x509_NotBefore cert),
      NotAfter = Time_UTC (x509_NotAfter cert),
      DNSNames = [],
      IsCA = x509_IsCA cert,
      SignatureAlgo = SignatureAlgorithm_String e (x509_SignatureAlgorithm cert)\<rparr>"

subsection \<open>A concrete environment\<close>

text \<open>
  A leaf certificate for \<open>example.com\<close> and the certificate of its issuer; a parser
  that answers a few strings with the scheme and host Go's \<open>url.Parse\<close> gives them
  (a string with no scheme and no \<open>//\<close>, such as \<open>example.com/path\<close>, parses as a
  bare path, with an empty host); peers that complete the handshake, stall, or present
  no certificate; and stand-ins for the opaque library functions. The theorems below
  are instantiated here.
\<close>

definition leaf_cert :: Certificate where
  "leaf_cert =
     \<lparr>x509_Subject = [(''CN'', ''example.com'')],
      x509_Issuer = [(''CN'', ''Example CA'')],
      x509_NotBefore = \<lparr>unixNano = 1700000000000000000, loc = FixedZone ''CET'' 3600\<rparr>,
      x509_NotAfter = \<lparr>unixNano = 1900000000000000000, loc = Local\<rparr>,
      x509_DNSNames = [''example.com'', ''www.example.com''],
      x509_IsCA = False,
      x509_SignatureAlgorithm = 4\<rparr>"

definition ca_cert :: Certificate where
  "ca_cert =
     \<lparr>x509_Subject = [(''CN'', ''Example CA'')],
      x509_Issuer = [(''CN'', ''Example Root'')],
      x509_NotBefore = \<lparr>unixNano = 1600000000000000000, loc = Local\<rparr>,
      x509_NotAfter = \<lparr>unixNano = 2000000000000000000, loc = UTC\<rparr>,
      x509_DNSNames = [''ca.example.net''],
      x509_IsCA = True,
      x509_SignatureAlgorithm = 4\<rparr>"

definition example_Parse :: "string \<Rightarrow> string + URL" where
  "example_Parse s =
     (if s = ''https://example.com'' then Inr \<lparr>Scheme = ''https'', Host = ''example.com''\<rparr>
      else if s = ''https://example.com:8443/path''
        then Inr \<lparr>Scheme = ''https'', Host = ''example.com:8443''\<rparr>
      else if s = ''http://example.com'' then Inr \<lparr>Scheme = ''http'', Host = ''example.com''\<rparr>
      else if s = ''https://192.0.2.1'' then Inr \<lparr>Scheme = ''https'', Host = ''192.0.2.1''\<rparr>
      else if s = ''https://192.0.2.2'' then Inr \<lparr>Scheme = ''https'', Host = ''192.0.2.2''\<rparr>
      else if s = ''example.com/path'' then Inr \<lparr>Scheme = '''', Host = ''''\<rparr>
      else if s = ''https://[::1]'' then Inr \<lparr>Scheme = ''https'', Host = ''[::1]''\<rparr>
      else Inl ''parse error'')"

definition example_peer :: "string \<Rightarrow> string \<Rightarrow> tls_Config option \<Rightarrow> peer_behaviour" where
  "example_peer network addr config =
     (if addr = ''93.184.216.34:443'' \<or> addr = ''example.com:443'' \<or> addr = ''example.com:8443''
        then CompletesAfter 20000000 [leaf_cert, ca_cert]
      else if addr = ''192.0.2.1:443'' then NeverCompletes
      else if addr = ''192.0.2.2:443'' then CompletesAfter 20000000 []
      else if addr = ''::1:443''
        then DialError ''dial tcp: address ::1:443: too many colons in address''
      else DialError ''connection refused'')"

definition example_env :: env where
  "example_env =
     \<lparr>url_Parse = example_Parse,
      tls_peer = example_peer,
      dial_timeout_error = ''i/o timeout'',
      x509_Verify = (\<lambda>certs opts.
         if certs \<noteq> [] \<and> DNSName opts \<in> set (x509_DNSNames (hd certs)) then None
         else Some ''x509: certificate is not valid for the requested name''),
      Name_String = (\<lambda>name. concat (map (\<lambda>(k, v). k @ ''='' @ v) name)),
      SignatureAlgorithm_String = (\<lambda>n. if n = 4 then ''SHA256-RSA'' else ''0''),
      json_MarshalIndent = (\<lambda>r. Inr (TargetURL r @ '' '' @ ChainValidation r)),
      Time_Format_RFC3339 = (\<lambda>t. if unixNano t = 1900000000000000000 then ''2030-03-17T17:46:40Z'' else ''?'')\<rparr>"

definition request_of :: "string \<Rightarrow> string \<Rightarrow> APIGatewayProxyRequest" where
  "request_of ip url = \<lparr>QueryStringParameters = [''ip'' \<mapsto> ip, ''url'' \<mapsto> url]\<rparr>"

definition example_request :: APIGatewayProxyRequest where
  "example_request = request_of ''93.184.216.34'' ''https://example.com''"

definition example_response :: APIGatewayProxyResponse where
  "example_response =
     \<lparr>StatusCode = 200, Body = ''https://example.com Certificate chain is valid.'',
      Headers = [''Content-Type'' \<mapsto> ''application/json'']\<rparr>"

definition example_query :: "string \<rightharpoonup> string list" where
  "example_query = [''url'' \<mapsto> [''https://example.com'']]"

definition example_line :: http_response where
  "example_line =
     \<lparr>status = 200,
      written = ''SSL certificate for https://example.com expires on 2030-03-17T17:46:40Z'' @ [CHR 0x0A]\<rparr>"

section \<open>The loops and the dial\<close>

lemma certInfos_loop_nonempty:
  "certInfos \<noteq> [] \<Longrightarrow> certInfos_loop e certs certInfos = certInfos @ map (summary e) certs"
  by (induction certs arbitrary: certInfos) (simp_all add: summary_def)

lemma certInfos_loop_empty:
  "certInfos_loop e (cert # rest) [] =
     (summary e cert)\<lparr>DNSNames := x509_DNSNames cert\<rparr> # map (summary e) rest"
  by (simp add: certInfos_loop_nonempty) (simp add: summary_def)

lemma certInfos_length: "length (certInfos_loop e certs []) = length certs"
proof (cases certs)
  case Nil
  then show ?thesis by simp
next
  case (Cons cert rest)
  then show ?thesis by (simp add: certInfos_loop_empty del: certInfos_loop.simps)
qed

lemma certInfos_first:
  "certs \<noteq> [] \<Longrightarrow> certInfos_loop e certs [] ! 0 = (summary e (certs ! 0))\<lparr>DNSNames := x509_DNSNames (certs ! 0)\<rparr>"
  by (cases certs) (simp_all add: certInfos_loop_empty del: certInfos_loop.simps)

lemma certInfos_later:
  "1 \<le> i \<Longrightarrow> i < length certs \<Longrightarrow> certInfos_loop e certs [] ! i = summary e (certs ! i)"
  by (cases certs; cases i) (simp_all add: certInfos_loop_empty del: certInfos_loop.simps)

lemma intermediates_loop_pos:
  "i > 0 \<Longrightarrow> set (intermediates_loop i certs pool) = set pool \<union> set certs"
  by (induction certs arbitrary: i pool) (auto simp: AddCert_def)

lemma intermediates_loop_0:
  "set (intermediates_loop 0 certs NewCertPool) = set (drop 1 certs)"
  by (cases certs) (simp_all add: intermediates_loop_pos NewCertPool_def)

lemma dial_in_time:
  assumes "tls_peer e network addr config = CompletesAfter t certs" and "t < 5 * Second"
  shows "tls_DialWithDialer e \<lparr>Timeout = 5 * Second\<rparr> network addr config
           = Some (Inr \<lparr>PeerCertificates = certs\<rparr>)"
  using assms by (simp add: tls_DialWithDialer_def Second_def)

lemma dial_late:
  assumes "tls_peer e network addr config = NeverCompletes
           \<or> (\<exists>t certs. tls_peer e network addr config = CompletesAfter t certs \<and> 5 * Second \<le> t)"
  shows "tls_DialWithDialer e \<lparr>Timeout = 5 * Second\<rparr> network addr config
           = Some (Inl (dial_timeout_error e))"
  using assms by (auto simp: tls_DialWithDialer_def Second_def)

lemma dial_returns:
  "tls_DialWithDialer e \<lparr>Timeout = 5 * Second\<rparr> network addr config \<noteq> None"
  by (simp add: tls_DialWithDialer_def Second_def split: peer_behaviour.splits)

lemma dial_conn:
  assumes "tls_DialWithDialer e \<lparr>Timeout = 5 * Second\<rparr> network addr config = Some (Inr conn)"
  shows "\<exists>t. tls_peer e network addr config = CompletesAfter t (PeerCertificates conn) \<and> t < 5 * Second"
  using assms by (auto simp: tls_DialWithDialer_def Second_def split: peer_behaviour.splits if_splits)

lemma tls_Dial_cases:
  "tls_Dial e network addr config =
     (case tls_peer e network addr config of
        DialError err \<Rightarrow> Some (Inl err)
      | NeverCompletes \<Rightarrow> None
      | CompletesAfter t certs \<Rightarrow> Some (Inr \<lparr>PeerCertificates = certs\<rparr>))"
  by (simp add: tls_Dial_def tls_DialWithDialer_def split: peer_behaviour.splits)

section \<open>Host and port of a URL\<close>




section \<open>Runs of \<open>handler\<close>\<close>

lemma handler_missing:
  assumes "param (QueryStringParameters request) ''ip'' = ''''
           \<or> param (QueryStringParameters request) ''url'' = ''''"
  shows "handler e request
           = ([], Some (createErrorResponse 400 ''Query parameters 'ip' and 'url' are required.''))"
  using assms by (auto simp: handler_def)

lemma handler_established:
  assumes ip: "param (QueryStringParameters request) ''ip'' = ip" "ip \<noteq> ''''"
    and url: "param (QueryStringParameters request) ''url'' = url" "url \<noteq> ''''"
    and peer: "tls_peer e ''tcp'' (net_JoinHostPort ip ''443'')
                 (Some \<lparr>ServerName = handler_hostname e url, InsecureSkipVerify = True\<rparr>)
               = CompletesAfter t certs"
    and t: "t < 5 * Second"
    and certs: "certs \<noteq> []"
    and opts: "opts = \<lparr>DNSName = handler_hostname e url,
                       Intermediates = intermediates_loop 0 certs NewCertPool, Roots = None\<rparr>"
    and payload: "payload = \<lparr>TargetURL = ''https://'' @ handler_hostname e url,
                  Certificates = certInfos_loop e certs [],
                  ChainValidation = (case x509_Verify e certs opts of
                                None \<Rightarrow> ''Certificate chain is valid.''
                              | Some err \<Rightarrow> ''Certificate chain verification failed: '' @ err)\<rparr>"
  shows "handler e request =
           ([TLSDial \<lparr>Timeout = 5 * Second\<rparr> ''tcp'' (net_JoinHostPort ip ''443'')
               (Some \<lparr>ServerName = handler_hostname e url, InsecureSkipVerify = True\<rparr>),
             X509Verify certs opts, JSONMarshalIndent payload, ConnClose],
            Some (case json_MarshalIndent e payload of
                    Inl err \<Rightarrow> createErrorResponse 500 ''Failed to serialize response.''
                  | Inr jsonBody \<Rightarrow> \<lparr>StatusCode = 200, Body = jsonBody,
                                     Headers = [''Content-Type'' \<mapsto> ''application/json'']\<rparr>))"
proof -
  have d: "tls_DialWithDialer e \<lparr>Timeout = 5 * Second\<rparr> ''tcp'' (net_JoinHostPort ip ''443'')
             (Some \<lparr>ServerName = handler_hostname e url, InsecureSkipVerify = True\<rparr>)
           = Some (Inr \<lparr>PeerCertificates = certs\<rparr>)"
    by (rule dial_in_time [OF peer t])
  show ?thesis
    unfolding handler_def using ip url certs d
    by (simp add: Let_def opts payload split: sum.splits)
qed

lemma handler_no_certificates:
  assumes ip: "param (QueryStringParameters request) ''ip'' = ip" "ip \<noteq> ''''"
    and url: "param (QueryStringParameters request) ''url'' = url" "url \<noteq> ''''"
    and peer: "tls_peer e ''tcp'' (net_JoinHostPort ip ''443'')
                 (Some \<lparr>ServerName = handler_hostname e url, InsecureSkipVerify = True\<rparr>)
               = CompletesAfter t []"
    and t: "t < 5 * Second"
  shows "handler e request =
           ([TLSDial \<lparr>Timeout = 5 * Second\<rparr> ''tcp'' (net_JoinHostPort ip ''443'')
               (Some \<lparr>ServerName = handler_hostname e url, InsecureSkipVerify = True\<rparr>),
             ConnClose],
            Some (createErrorResponse 500 ''Server did not provide any certificates.''))"
  unfolding handler_def using ip url dial_in_time [OF peer t]
  by (simp add: Let_def)

lemma handler_returns: "\<exists>resp. snd (handler e request) = Some resp"
  unfolding handler_def
  by (auto simp: Let_def dial_returns split: option.splits sum.splits)

lemma handler_200:
  assumes run: "handler e request = (calls, Some resp)" and ok: "StatusCode resp = 200"
  shows "param (QueryStringParameters request) ''ip'' \<noteq> ''''
       \<and> param (QueryStringParameters request) ''url'' \<noteq> ''''
       \<and> (\<exists>t certs. tls_peer e ''tcp''
              (net_JoinHostPort (param (QueryStringParameters request) ''ip'') ''443'')
              (Some \<lparr>ServerName = handler_hostname e (param (QueryStringParameters request) ''url''),
                     InsecureSkipVerify = True\<rparr>) = CompletesAfter t certs
            \<and> t < 5 * Second \<and> certs \<noteq> [])"
proof -
  let ?ip = "param (QueryStringParameters request) ''ip''"
  let ?url = "param (QueryStringParameters request) ''url''"
  let ?cfg = "Some \<lparr>ServerName = handler_hostname e ?url, InsecureSkipVerify = True\<rparr>"
  let ?dial = "tls_DialWithDialer e \<lparr>Timeout = 5 * Second\<rparr> ''tcp'' (net_JoinHostPort ?ip ''443'') ?cfg"
  have params: "?ip \<noteq> '''' \<and> ?url \<noteq> ''''"
    using run ok by (auto simp: handler_def createErrorResponse_def)
  obtain conn where conn: "?dial = Some (Inr conn)" and ne: "PeerCertificates conn \<noteq> []"
    using run ok params
    by (auto simp: handler_def Let_def createErrorResponse_def
             split: option.splits sum.splits if_splits)
  from dial_conn [OF conn] obtain t where
    "tls_peer e ''tcp'' (net_JoinHostPort ?ip ''443'') ?cfg = CompletesAfter t (PeerCertificates conn)"
    "t < 5 * Second" by blast
  with params ne show ?thesis by blast
qed

lemma handler_calls:
  assumes ip: "param (QueryStringParameters request) ''ip'' = ip" "ip \<noteq> ''''"
    and url: "param (QueryStringParameters request) ''url'' = url" "url \<noteq> ''''"
  shows "\<exists>rest.
           fst (handler e request)
             = TLSDial \<lparr>Timeout = 5 * Second\<rparr> ''tcp'' (net_JoinHostPort ip ''443'')
                 (Some \<lparr>ServerName = handler_hostname e url, InsecureSkipVerify = True\<rparr>) # rest
         \<and> (\<forall>d n a c. TLSDial d n a c \<notin> set rest)
         \<and> (\<forall>cs opts. X509Verify cs opts \<in> set rest \<longrightarrow>
               DNSName opts = handler_hostname e url \<and> Roots opts = None)
         \<and> (\<forall>payload. JSONMarshalIndent payload \<in> set rest \<longrightarrow>
               (\<exists>cs opts. X509Verify cs opts \<in> set rest
                  \<and> (ChainValidation payload = ''Certificate chain is valid.''
                       \<longleftrightarrow> x509_Verify e cs opts = None)))"
proof -
  let ?cfg = "Some \<lparr>ServerName = handler_hostname e url, InsecureSkipVerify = True\<rparr>"
  let ?d = "tls_DialWithDialer e \<lparr>Timeout = 5 * Second\<rparr> ''tcp'' (net_JoinHostPort ip ''443'') ?cfg"
  from dial_returns obtain r where r: "?d = Some r" by blast
  show ?thesis
  proof (cases r)
    case (Inl err)
    with r ip url have "fst (handler e request)
        = [TLSDial \<lparr>Timeout = 5 * Second\<rparr> ''tcp'' (net_JoinHostPort ip ''443'') ?cfg]"
      by (simp add: handler_def Let_def)
    then show ?thesis by simp
  next
    case (Inr conn)
    show ?thesis
    proof (cases "PeerCertificates conn = []")
      case True
      with r Inr ip url have "fst (handler e request)
        = [TLSDial \<lparr>Timeout = 5 * Second\<rparr> ''tcp'' (net_JoinHostPort ip ''443'') ?cfg, ConnClose]"
        by (simp add: handler_def Let_def)
      then show ?thesis by simp
    next
      case False
      from dial_conn [OF r [unfolded Inr]] obtain t where
        peer: "tls_peer e ''tcp'' (net_JoinHostPort ip ''443'') ?cfg
                 = CompletesAfter t (PeerCertificates conn)" and t: "t < 5 * Second"
        by blast
      note est = handler_established [OF ip url peer t False refl refl]
      show ?thesis
        unfolding est fst_conv
        by (intro exI conjI; (rule refl)?) (auto split: option.splits)
    qed
  qed
qed

lemma handler_verify_call:
  assumes ip: "param (QueryStringParameters request) ''ip'' = ip" "ip \<noteq> ''''"
    and url: "param (QueryStringParameters request) ''url'' = url" "url \<noteq> ''''"
    and peer: "tls_peer e ''tcp'' (net_JoinHostPort ip ''443'')
                 (Some \<lparr>ServerName = handler_hostname e url, InsecureSkipVerify = True\<rparr>)
               = CompletesAfter t certs"
    and t: "t < 5 * Second"
    and certs: "certs \<noteq> []"
  shows "\<exists>dial opts marshal.
           fst (handler e request) = [dial, X509Verify certs opts, marshal, ConnClose]
         \<and> set (Intermediates opts) = set (drop 1 certs)
         \<and> DNSName opts = handler_hostname e url
         \<and> Roots opts = None"
  unfolding handler_established [OF ip url peer t certs refl refl] fst_conv
  by (intro exI conjI; (rule refl)?) (simp_all add: intermediates_loop_0)

section \<open>Runs of \<open>handleRequest\<close>\<close>

lemma handleRequest_missing:
  assumes "Values_Get query ''url'' = ''''"
  shows "handleRequest e query
           = (debug_print (Values_Get query ''debug'') NoURLParameter,
              Some (http_Error ''Missing 'url' query parameter'' 400))"
  using assms by (simp add: handleRequest_def)

lemma handleRequest_rejected:
  assumes "Values_Get query ''url'' = rawURL" and "rawURL \<noteq> ''''"
    and "\<forall>u. url_Parse e rawURL = Inr u \<longrightarrow> Scheme u \<noteq> ''https'' \<or> Host u = ''''"
  shows "\<exists>err. handleRequest e query
           = (debug_print (Values_Get query ''debug'') (InvalidURLFormat err),
              Some (http_Error ''Invalid 'url' format. Example: https://example.com:8443'' 400))"
  using assms by (cases "url_Parse e rawURL") (auto simp: handleRequest_def)

lemma handleRequest_accepted:
  assumes "Values_Get query ''url'' = rawURL" and "rawURL \<noteq> ''''"
    and "url_Parse e rawURL = Inr u" and "Scheme u = ''https''" and "Host u \<noteq> ''''"
    and "host = (if URL_Port u = '''' then URL_Hostname u @ '':443'' else Host u)"
  shows "handleRequest e query =
     (case tls_peer e ''tcp'' host None of
        DialError err \<Rightarrow>
          ([TLSDial \<lparr>Timeout = 0\<rparr> ''tcp'' host None]
             @ debug_print (Values_Get query ''debug'') (ServerConnectError err),
           Some (http_Error ''Failed to connect to the server'' 500))
      | NeverCompletes \<Rightarrow> ([TLSDial \<lparr>Timeout = 0\<rparr> ''tcp'' host None], None)
      | CompletesAfter t certs \<Rightarrow>
          (if certs = []
           then ([TLSDial \<lparr>Timeout = 0\<rparr> ''tcp'' host None]
                   @ debug_print (Values_Get query ''debug'') NoCertificatesFound @ [ConnClose],
                 Some (http_Error ''No certificates found'' 500))
           else ([TLSDial \<lparr>Timeout = 0\<rparr> ''tcp'' host None, ConnClose],
                 Some \<lparr>status = 200,
                       written = ''SSL certificate for '' @ rawURL @ '' expires on ''
                                 @ Time_Format_RFC3339 e (x509_NotAfter (certs ! 0)) @ [CHR 0x0A]\<rparr>)))"
  using assms
  by (simp add: handleRequest_def tls_Dial_cases Let_def split: peer_behaviour.splits)

lemma handleRequest_200:
  assumes run: "snd (handleRequest e query) = Some resp" and ok: "status resp = 200"
  shows "\<exists>u t certs.
           Values_Get query ''url'' \<noteq> ''''
         \<and> url_Parse e (Values_Get query ''url'') = Inr u \<and> Scheme u = ''https'' \<and> Host u \<noteq> ''''
         \<and> tls_peer e ''tcp'' (if URL_Port u = '''' then URL_Hostname u @ '':443'' else Host u) None
             = CompletesAfter t certs
         \<and> certs \<noteq> []
         \<and> written resp = ''SSL certificate for '' @ Values_Get query ''url'' @ '' expires on ''
                                 @ Time_Format_RFC3339 e (x509_NotAfter (certs ! 0)) @ [CHR 0x0A]"
proof -
  let ?raw = "Values_Get query ''url''"
  have raw: "?raw \<noteq> ''''"
    using run ok by (auto simp: handleRequest_missing http_Error_def)
  have "\<not> (\<forall>u. url_Parse e ?raw = Inr u \<longrightarrow> Scheme u \<noteq> ''https'' \<or> Host u = '''')"
  proof
    assume "\<forall>u. url_Parse e ?raw = Inr u \<longrightarrow> Scheme u \<noteq> ''https'' \<or> Host u = ''''"
    from handleRequest_rejected [OF refl raw this] run ok show False
      by (auto simp: http_Error_def)
  qed
  then obtain u where u: "url_Parse e ?raw = Inr u" "Scheme u = ''https''" "Host u \<noteq> ''''"
    by blast
  let ?host = "if URL_Port u = '''' then URL_Hostname u @ '':443'' else Host u"
  note acc = handleRequest_accepted [OF refl raw u refl]
  show ?thesis
  proof (cases "tls_peer e ''tcp'' ?host None")
    case (DialError err)
    with acc run ok have False by (auto simp: http_Error_def)
    then show ?thesis ..
  next
    case NeverCompletes
    with acc run show ?thesis by simp
  next
    case (CompletesAfter t certs)
    with acc run ok have "certs \<noteq> []" by (auto simp: http_Error_def split: if_splits)
    with CompletesAfter acc run have
      "written resp = ''SSL certificate for '' @ ?raw @ '' expires on ''
                                 @ Time_Format_RFC3339 e (x509_NotAfter (certs ! 0)) @ [CHR 0x0A]"
      by auto
    with raw u CompletesAfter \<open>certs \<noteq> []\<close> show ?thesis by blast
  qed
qed

section \<open>The runs on the example\<close>

lemma request_of_params:
  "param (QueryStringParameters (request_of ip url)) ''ip'' = ip"
  "param (QueryStringParameters (request_of ip url)) ''url'' = url"
  by (simp_all add: request_of_def param_def)

lemma example_params:
  "param (QueryStringParameters example_request) ''ip'' = ''93.184.216.34''"
  "param (QueryStringParameters example_request) ''url'' = ''https://example.com''"
  by (simp_all add: example_request_def request_of_def param_def)

lemma example_parse:
  "url_Parse example_env ''https://example.com'' = Inr \<lparr>Scheme = ''https'', Host = ''example.com''\<rparr>"
  "url_Parse example_env ''https://192.0.2.1'' = Inr \<lparr>Scheme = ''https'', Host = ''192.0.2.1''\<rparr>"
  "url_Parse example_env ''https://192.0.2.2'' = Inr \<lparr>Scheme = ''https'', Host = ''192.0.2.2''\<rparr>"
  "url_Parse example_env ''https://example.com:8443/path''
     = Inr \<lparr>Scheme = ''https'', Host = ''example.com:8443''\<rparr>"
  "url_Parse example_env ''http://example.com'' = Inr \<lparr>Scheme = ''http'', Host = ''example.com''\<rparr>"
  "url_Parse example_env ''example.com/path'' = Inr \<lparr>Scheme = '''', Host = ''''\<rparr>"
  "url_Parse example_env ''https://[::1]'' = Inr \<lparr>Scheme = ''https'', Host = ''[::1]''\<rparr>"
  by (simp_all add: example_env_def example_Parse_def)

lemma example_ports:
  "splitHostPort ''example.com'' = (''example.com'', '''')"
  "splitHostPort ''192.0.2.1'' = (''192.0.2.1'', '''')"
  "splitHostPort ''192.0.2.2'' = (''192.0.2.2'', '''')"
  "splitHostPort ''example.com:8443'' = (''example.com'', ''8443'')"
  "splitHostPort ''[::1]'' = (''::1'', '''')"
  by (simp_all add: splitHostPort_def validOptionalPort_def HasPrefix_def HasSuffix_def)

lemma example_hostname: "handler_hostname example_env ''https://example.com'' = ''example.com''"
  by (simp add: handler_hostname_def example_env_def example_Parse_def)

lemma example_address: "net_JoinHostPort ''93.184.216.34'' ''443'' = ''93.184.216.34:443''"
  by (simp add: net_JoinHostPort_def)

lemma example_peer_completes:
  "tls_peer example_env ''tcp'' ''93.184.216.34:443'' config = CompletesAfter 20000000 [leaf_cert, ca_cert]"
  by (simp add: example_env_def example_peer_def)

lemma example_peers:
  "tls_peer example_env network ''example.com:443'' config = CompletesAfter 20000000 [leaf_cert, ca_cert]"
  "tls_peer example_env network ''example.com:8443'' config = CompletesAfter 20000000 [leaf_cert, ca_cert]"
  "tls_peer example_env network ''192.0.2.1:443'' config = NeverCompletes"
  "tls_peer example_env network ''192.0.2.2:443'' config = CompletesAfter 20000000 []"
  "tls_peer example_env network ''::1:443'' config
     = DialError ''dial tcp: address ::1:443: too many colons in address''"
  by (simp_all add: example_env_def example_peer_def)

lemma example_verify:
  "x509_Verify example_env [leaf_cert, ca_cert] \<lparr>DNSName = ''example.com'', Intermediates = pool, Roots = None\<rparr> = None"
  by (simp add: example_env_def leaf_cert_def)

lemma example_mismatch:
  "handler_hostname example_env ''https://192.0.2.2'' = ''192.0.2.2''"
  "x509_Verify example_env [leaf_cert, ca_cert]
     \<lparr>DNSName = ''192.0.2.2'', Intermediates = pool, Roots = None\<rparr>
   = Some ''x509: certificate is not valid for the requested name''"
  by (simp_all add: handler_hostname_def example_env_def example_Parse_def leaf_cert_def)

lemma example_fallback:
  "handler_hostname example_env ''example.com/path'' = ''example.com/path''"
  "x509_Verify example_env [leaf_cert, ca_cert]
     \<lparr>DNSName = ''example.com/path'', Intermediates = pool, Roots = None\<rparr>
   = Some ''x509: certificate is not valid for the requested name''"
  by (simp_all add: handler_hostname_def example_env_def example_Parse_def leaf_cert_def)

lemma example_pool: "intermediates_loop 0 [leaf_cert, ca_cert] NewCertPool = [ca_cert]"
  by (simp add: NewCertPool_def AddCert_def)

lemma example_snd: "snd (handler example_env example_request) = Some example_response"
proof -
  have peer: "tls_peer example_env ''tcp'' (net_JoinHostPort ''93.184.216.34'' ''443'')
                 (Some \<lparr>ServerName = handler_hostname example_env ''https://example.com'', InsecureSkipVerify = True\<rparr>)
               = CompletesAfter 20000000 [leaf_cert, ca_cert]"
    by (simp add: example_address example_peer_completes)
  have t: "(20000000::int) < 5 * Second" by (simp add: Second_def)
  note est = handler_established [OF example_params(1) _ example_params(2) _ peer t _ refl refl]
  have "json_MarshalIndent example_env r = Inr (TargetURL r @ '' '' @ ChainValidation r)" for r
    by (simp add: example_env_def)
  then show ?thesis
    by (simp add: est example_hostname example_verify example_response_def)
qed

lemma example_line_snd: "snd (handleRequest example_env example_query) = Some example_line"
proof -
  have get: "Values_Get example_query ''url'' = ''https://example.com''"
    by (simp add: example_query_def Values_Get_def)
  have host: "''example.com:443''
        = (if URL_Port \<lparr>Scheme = ''https'', Host = ''example.com''\<rparr> = ''''
           then URL_Hostname \<lparr>Scheme = ''https'', Host = ''example.com''\<rparr> @ '':443''
           else Host \<lparr>Scheme = ''https'', Host = ''example.com''\<rparr>)"
    by (simp add: URL_Port_def URL_Hostname_def example_ports)
  have fmt: "Time_Format_RFC3339 example_env (x509_NotAfter leaf_cert) = ''2030-03-17T17:46:40Z''"
    by (simp add: example_env_def leaf_cert_def)
  note acc = handleRequest_accepted [OF get _ example_parse(1) _ _ host]
  show ?thesis
    by (simp add: acc example_peers fmt example_line_def)
qed

section \<open>The claims\<close>

subsection \<open>Subject alternative names only on the leaf\<close>

text \<open>
  C1. In every chain returned with status 200, the summary at index 0 carries the
  subject alternative names of the leaf certificate, and every summary at index 1 or
  greater has an empty \<open>dns_names\<close> field.
\<close>

theorem dns_names_only_at_index_0:
  assumes run: "snd (handler e request) = Some resp" and ok: "StatusCode resp = 200"
  shows "\<exists>dialer addr config t certs opts payload.
           fst (handler e request)
             = [TLSDial dialer ''tcp'' addr config, X509Verify certs opts,
                JSONMarshalIndent payload, ConnClose]
         \<and> tls_peer e ''tcp'' addr config = CompletesAfter t certs
         \<and> json_MarshalIndent e payload = Inr (Body resp)
         \<and> length (Certificates payload) = length certs
         \<and> DNSNames (Certificates payload ! 0) = x509_DNSNames (certs ! 0)
         \<and> (\<forall>i. 1 \<le> i \<and> i < length (Certificates payload)
                \<longrightarrow> DNSNames (Certificates payload ! i) = [])"
proof -
  let ?ip = "param (QueryStringParameters request) ''ip''"
  let ?url = "param (QueryStringParameters request) ''url''"
  let ?cfg = "Some \<lparr>ServerName = handler_hostname e ?url, InsecureSkipVerify = True\<rparr>"
  from run obtain calls where h: "handler e request = (calls, Some resp)"
    by (cases "handler e request") simp
  from handler_200 [OF h ok] obtain t certs where
    ip: "?ip \<noteq> ''''" and url: "?url \<noteq> ''''"
    and peer: "tls_peer e ''tcp'' (net_JoinHostPort ?ip ''443'') ?cfg = CompletesAfter t certs"
    and t: "t < 5 * Second" and certs: "certs \<noteq> []"
    by blast
  note est = handler_established [OF refl ip refl url peer t certs refl refl]
  let ?payload = "\<lparr>TargetURL = ''https://'' @ handler_hostname e ?url,
                  Certificates = certInfos_loop e certs [],
                  ChainValidation = (case x509_Verify e certs \<lparr>DNSName = handler_hostname e ?url,
                       Intermediates = intermediates_loop 0 certs NewCertPool, Roots = None\<rparr> of
                                None \<Rightarrow> ''Certificate chain is valid.''
                              | Some err \<Rightarrow> ''Certificate chain verification failed: '' @ err)\<rparr>"
  have body: "json_MarshalIndent e ?payload = Inr (Body resp)"
    using est h ok by (auto simp: createErrorResponse_def split: sum.splits)
  have first: "DNSNames (Certificates ?payload ! 0) = x509_DNSNames (certs ! 0)"
    using certs by (simp add: certInfos_first)
  have later: "\<forall>i. 1 \<le> i \<and> i < length (Certificates ?payload)
                \<longrightarrow> DNSNames (Certificates ?payload ! i) = []"
    by (simp add: certInfos_length certInfos_later summary_def)
  have len: "length (Certificates ?payload) = length certs"
    by (simp add: certInfos_length)
  have calls: "fst (handler e request)
             = [TLSDial \<lparr>Timeout = 5 * Second\<rparr> ''tcp'' (net_JoinHostPort ?ip ''443'') ?cfg,
                X509Verify certs \<lparr>DNSName = handler_hostname e ?url,
                       Intermediates = intermediates_loop 0 certs NewCertPool, Roots = None\<rparr>,
                JSONMarshalIndent ?payload, ConnClose]"
    using est by simp
  from calls peer body len first later show ?thesis by blast
qed

theorem dns_names_only_at_index_0_witness:
  "snd (handler example_env example_request) = Some example_response
   \<and> StatusCode example_response = 200
   \<and> (\<exists>dialer addr config t certs opts payload.
           fst (handler example_env example_request)
             = [TLSDial dialer ''tcp'' addr config, X509Verify certs opts,
                JSONMarshalIndent payload, ConnClose]
         \<and> tls_peer example_env ''tcp'' addr config = CompletesAfter t certs
         \<and> json_MarshalIndent example_env payload = Inr (Body example_response)
         \<and> length (Certificates payload) = length certs
         \<and> DNSNames (Certificates payload ! 0) = x509_DNSNames (certs ! 0)
         \<and> (\<forall>i. 1 \<le> i \<and> i < length (Certificates payload)
                \<longrightarrow> DNSNames (Certificates payload ! i) = []))"
proof -
  have ok: "StatusCode example_response = 200" by (simp add: example_response_def)
  from dns_names_only_at_index_0 [OF example_snd ok] example_snd ok show ?thesis by blast
qed

subsection \<open>The verifier call\<close>

text \<open>
  C2 at a chain of two certificates. The pool holds the certificate at index 1 and the
  options name \<open>example.com\<close> with no roots of their own, as the claim says; but the
  receiver of \<open>Verify\<close> on line 113 is \<open>certs\<close>, the whole chain, and not the leaf
  \<open>certs[0]\<close>. In crypto/x509 \<open>Verify\<close> is a method of one certificate: a slice of
  certificates has none, so the call as written verifies no leaf.
\<close>

theorem verify_receiver_is_the_whole_chain:
  "fst (handler example_env example_request) ! 1
     = X509Verify [leaf_cert, ca_cert]
         \<lparr>DNSName = ''example.com'', Intermediates = [ca_cert], Roots = None\<rparr>
   \<and> [leaf_cert, ca_cert] \<noteq> [leaf_cert]"
proof -
  have h2: "''93.184.216.34'' \<noteq> ''''" and h4: "''https://example.com'' \<noteq> ''''" by simp_all
  have h5: "tls_peer example_env ''tcp'' (net_JoinHostPort ''93.184.216.34'' ''443'')
        (Some \<lparr>ServerName = handler_hostname example_env ''https://example.com'',
               InsecureSkipVerify = True\<rparr>)
      = CompletesAfter 20000000 [leaf_cert, ca_cert]"
    by (simp add: example_address example_peer_completes)
  have h6: "(20000000::int) < 5 * Second" by (simp add: Second_def)
  have h7: "[leaf_cert, ca_cert] \<noteq> []" by simp
  note est = handler_established [OF example_params(1) h2 example_params(2) h4 h5 h6 h7 refl refl]
  show ?thesis
    unfolding est fst_conv
    by (simp add: example_hostname NewCertPool_def AddCert_def)
qed

subsection \<open>Verification failure is a result\<close>

text \<open>
  C3. When the verifier rejects the chain (for whatever reason, a name absent from the
  leaf's names included), \<open>handler\<close> still builds the payload, whose validation
  message is the failure prefix followed by the verifier's text and differs from the
  canonical valid message; the answer is status 200 with that payload serialised. The
  only other answer possible at this point is the 500 of a failed serialisation.
\<close>

theorem verification_failure_is_reported_as_data:
  assumes ip: "param (QueryStringParameters request) ''ip'' = ip" "ip \<noteq> ''''"
    and url: "param (QueryStringParameters request) ''url'' = url" "url \<noteq> ''''"
    and peer: "tls_peer e ''tcp'' (net_JoinHostPort ip ''443'')
                 (Some \<lparr>ServerName = handler_hostname e url, InsecureSkipVerify = True\<rparr>)
               = CompletesAfter t certs"
    and t: "t < 5 * Second"
    and certs: "certs \<noteq> []"
    and failed: "x509_Verify e certs \<lparr>DNSName = handler_hostname e url,
                   Intermediates = intermediates_loop 0 certs NewCertPool, Roots = None\<rparr> = Some err"
  shows "\<exists>dial verify payload.
           fst (handler e request) = [dial, verify, JSONMarshalIndent payload, ConnClose]
         \<and> ChainValidation payload = ''Certificate chain verification failed: '' @ err
         \<and> ChainValidation payload \<noteq> ''Certificate chain is valid.''
         \<and> (\<forall>body. json_MarshalIndent e payload = Inr body \<longrightarrow>
               snd (handler e request)
                 = Some \<lparr>StatusCode = 200, Body = body,
                         Headers = [''Content-Type'' \<mapsto> ''application/json'']\<rparr>)
         \<and> (\<forall>x. json_MarshalIndent e payload = Inl x \<longrightarrow>
               snd (handler e request)
                 = Some (createErrorResponse 500 ''Failed to serialize response.''))"
proof -
  note est = handler_established [OF ip url peer t certs refl refl]
  show ?thesis
    unfolding est fst_conv snd_conv
    by (intro exI conjI allI impI; (rule refl)?) (simp_all add: failed)
qed

theorem verification_failure_is_reported_as_data_witness:
  "param (QueryStringParameters (request_of ''93.184.216.34'' ''https://192.0.2.2'')) ''ip''
     = ''93.184.216.34''
   \<and> ''93.184.216.34'' \<noteq> ''''
   \<and> param (QueryStringParameters (request_of ''93.184.216.34'' ''https://192.0.2.2'')) ''url''
     = ''https://192.0.2.2''
   \<and> ''https://192.0.2.2'' \<noteq> ''''
   \<and> tls_peer example_env ''tcp'' (net_JoinHostPort ''93.184.216.34'' ''443'')
        (Some \<lparr>ServerName = handler_hostname example_env ''https://192.0.2.2'',
               InsecureSkipVerify = True\<rparr>)
      = CompletesAfter 20000000 [leaf_cert, ca_cert]
   \<and> 20000000 < 5 * Second
   \<and> [leaf_cert, ca_cert] \<noteq> []
   \<and> x509_Verify example_env [leaf_cert, ca_cert]
        \<lparr>DNSName = handler_hostname example_env ''https://192.0.2.2'',
         Intermediates = intermediates_loop 0 [leaf_cert, ca_cert] NewCertPool, Roots = None\<rparr>
      = Some ''x509: certificate is not valid for the requested name''
   \<and> (\<exists>dial verify payload.
           fst (handler example_env (request_of ''93.184.216.34'' ''https://192.0.2.2''))
             = [dial, verify, JSONMarshalIndent payload, ConnClose]
         \<and> ChainValidation payload
             = ''Certificate chain verification failed: ''
               @ ''x509: certificate is not valid for the requested name''
         \<and> ChainValidation payload \<noteq> ''Certificate chain is valid.''
         \<and> (\<forall>body. json_MarshalIndent example_env payload = Inr body \<longrightarrow>
               snd (handler example_env (request_of ''93.184.216.34'' ''https://192.0.2.2''))
                 = Some \<lparr>StatusCode = 200, Body = body,
                         Headers = [''Content-Type'' \<mapsto> ''application/json'']\<rparr>)
         \<and> (\<forall>x. json_MarshalIndent example_env payload = Inl x \<longrightarrow>
               snd (handler example_env (request_of ''93.184.216.34'' ''https://192.0.2.2''))
                 = Some (createErrorResponse 500 ''Failed to serialize response.'')))"
proof -
  have h2: "''93.184.216.34'' \<noteq> ''''" and h4: "''https://192.0.2.2'' \<noteq> ''''" by simp_all
  have h5: "tls_peer example_env ''tcp'' (net_JoinHostPort ''93.184.216.34'' ''443'')
        (Some \<lparr>ServerName = handler_hostname example_env ''https://192.0.2.2'',
               InsecureSkipVerify = True\<rparr>)
      = CompletesAfter 20000000 [leaf_cert, ca_cert]"
    by (simp add: example_address example_peer_completes)
  have h6: "(20000000::int) < 5 * Second" by (simp add: Second_def)
  have h7: "[leaf_cert, ca_cert] \<noteq> []" by simp
  have h8: "x509_Verify example_env [leaf_cert, ca_cert]
        \<lparr>DNSName = handler_hostname example_env ''https://192.0.2.2'',
         Intermediates = intermediates_loop 0 [leaf_cert, ca_cert] NewCertPool, Roots = None\<rparr>
      = Some ''x509: certificate is not valid for the requested name''"
    by (simp only: example_mismatch)
  note T = verification_failure_is_reported_as_data
             [OF request_of_params(1) h2 request_of_params(2) h4 h5 h6 h7 h8]
  show ?thesis
    by (rule conjI [OF request_of_params(1) conjI [OF h2 conjI [OF request_of_params(2)
          conjI [OF h4 conjI [OF h5 conjI [OF h6 conjI [OF h7 conjI [OF h8 T]]]]]]]])
qed

subsection \<open>No certificates\<close>

text \<open>
  C4. A peer that completes the handshake and presents no certificate makes both
  endpoints answer with status 500 (\<open>handler\<close>: "Server did not provide any
  certificates."; \<open>handleRequest\<close>: "No certificates found"). Conversely a status
  200 answer of \<open>handler\<close> carries a non-empty list of summaries, and a status 200
  answer of \<open>handleRequest\<close> reports on a non-empty chain.
\<close>

theorem zero_certificates_is_an_error:
  "(param (QueryStringParameters request) ''ip'' = ip \<and> ip \<noteq> ''''
      \<and> param (QueryStringParameters request) ''url'' = url \<and> url \<noteq> ''''
      \<and> tls_peer e ''tcp'' (net_JoinHostPort ip ''443'')
            (Some \<lparr>ServerName = handler_hostname e url, InsecureSkipVerify = True\<rparr>)
          = CompletesAfter t [] \<and> t < 5 * Second
    \<longrightarrow> snd (handler e request)
          = Some (createErrorResponse 500 ''Server did not provide any certificates.'')
      \<and> StatusCode (createErrorResponse 500 ''Server did not provide any certificates.'') = 500)
 \<and> (snd (handler e request) = Some resp \<and> StatusCode resp = 200
    \<longrightarrow> (\<exists>dial verify payload.
            fst (handler e request) = [dial, verify, JSONMarshalIndent payload, ConnClose]
          \<and> json_MarshalIndent e payload = Inr (Body resp)
          \<and> Certificates payload \<noteq> []))
 \<and> (Values_Get query ''url'' = rawURL \<and> rawURL \<noteq> ''''
      \<and> url_Parse e rawURL = Inr u \<and> Scheme u = ''https'' \<and> Host u \<noteq> ''''
      \<and> tls_peer e ''tcp'' (if URL_Port u = '''' then URL_Hostname u @ '':443'' else Host u) None
          = CompletesAfter t' []
    \<longrightarrow> snd (handleRequest e query) = Some (http_Error ''No certificates found'' 500)
      \<and> status (http_Error ''No certificates found'' 500) = 500)
 \<and> (snd (handleRequest e query) = Some hresp \<and> status hresp = 200
    \<longrightarrow> (\<exists>v s certs.
            url_Parse e (Values_Get query ''url'') = Inr v
          \<and> tls_peer e ''tcp'' (if URL_Port v = '''' then URL_Hostname v @ '':443'' else Host v) None
              = CompletesAfter s certs
          \<and> certs \<noteq> []
          \<and> written hresp = ''SSL certificate for '' @ Values_Get query ''url'' @ '' expires on ''
                             @ Time_Format_RFC3339 e (x509_NotAfter (certs ! 0)) @ [CHR 0x0A]))"
proof (intro conjI impI)
  assume a: "param (QueryStringParameters request) ''ip'' = ip \<and> ip \<noteq> ''''
      \<and> param (QueryStringParameters request) ''url'' = url \<and> url \<noteq> ''''
      \<and> tls_peer e ''tcp'' (net_JoinHostPort ip ''443'')
            (Some \<lparr>ServerName = handler_hostname e url, InsecureSkipVerify = True\<rparr>)
          = CompletesAfter t [] \<and> t < 5 * Second"
  then have "handler e request =
           ([TLSDial \<lparr>Timeout = 5 * Second\<rparr> ''tcp'' (net_JoinHostPort ip ''443'')
               (Some \<lparr>ServerName = handler_hostname e url, InsecureSkipVerify = True\<rparr>),
             ConnClose],
            Some (createErrorResponse 500 ''Server did not provide any certificates.''))"
    by (intro handler_no_certificates) blast+
  then show "snd (handler e request)
          = Some (createErrorResponse 500 ''Server did not provide any certificates.'')"
    by simp
next
  show "StatusCode (createErrorResponse 500 ''Server did not provide any certificates.'') = 500"
    by (simp add: createErrorResponse_def)
next
  assume a: "snd (handler e request) = Some resp \<and> StatusCode resp = 200"
  let ?ip = "param (QueryStringParameters request) ''ip''"
  let ?url = "param (QueryStringParameters request) ''url''"
  let ?cfg = "Some \<lparr>ServerName = handler_hostname e ?url, InsecureSkipVerify = True\<rparr>"
  from a obtain calls where h: "handler e request = (calls, Some resp)"
    by (cases "handler e request") simp
  from a have ok: "StatusCode resp = 200" by simp
  from handler_200 [OF h ok] obtain t certs where
    ip: "?ip \<noteq> ''''" and url: "?url \<noteq> ''''"
    and peer: "tls_peer e ''tcp'' (net_JoinHostPort ?ip ''443'') ?cfg = CompletesAfter t certs"
    and t: "t < 5 * Second" and certs: "certs \<noteq> []"
    by blast
  note est = handler_established [OF refl ip refl url peer t certs refl refl]
  let ?payload = "\<lparr>TargetURL = ''https://'' @ handler_hostname e ?url,
                  Certificates = certInfos_loop e certs [],
                  ChainValidation = (case x509_Verify e certs \<lparr>DNSName = handler_hostname e ?url,
                       Intermediates = intermediates_loop 0 certs NewCertPool, Roots = None\<rparr> of
                                None \<Rightarrow> ''Certificate chain is valid.''
                              | Some err \<Rightarrow> ''Certificate chain verification failed: '' @ err)\<rparr>"
  have body: "json_MarshalIndent e ?payload = Inr (Body resp)"
    using est h ok by (auto simp: createErrorResponse_def split: sum.splits)
  have "length (Certificates ?payload) = length certs" by (simp add: certInfos_length)
  with certs have ne: "Certificates ?payload \<noteq> []" by auto
  have "fst (handler e request)
             = [TLSDial \<lparr>Timeout = 5 * Second\<rparr> ''tcp'' (net_JoinHostPort ?ip ''443'') ?cfg,
                X509Verify certs \<lparr>DNSName = handler_hostname e ?url,
                       Intermediates = intermediates_loop 0 certs NewCertPool, Roots = None\<rparr>,
                JSONMarshalIndent ?payload, ConnClose]"
    using est by simp
  with body ne show "\<exists>dial verify payload.
            fst (handler e request) = [dial, verify, JSONMarshalIndent payload, ConnClose]
          \<and> json_MarshalIndent e payload = Inr (Body resp)
          \<and> Certificates payload \<noteq> []" by blast
next
  assume a: "Values_Get query ''url'' = rawURL \<and> rawURL \<noteq> ''''
      \<and> url_Parse e rawURL = Inr u \<and> Scheme u = ''https'' \<and> Host u \<noteq> ''''
      \<and> tls_peer e ''tcp'' (if URL_Port u = '''' then URL_Hostname u @ '':443'' else Host u) None
          = CompletesAfter t' []"
  then have "handleRequest e query =
     (case tls_peer e ''tcp'' (if URL_Port u = '''' then URL_Hostname u @ '':443'' else Host u) None of
        DialError err \<Rightarrow>
          ([TLSDial \<lparr>Timeout = 0\<rparr> ''tcp'' (if URL_Port u = '''' then URL_Hostname u @ '':443'' else Host u) None]
             @ debug_print (Values_Get query ''debug'') (ServerConnectError err),
           Some (http_Error ''Failed to connect to the server'' 500))
      | NeverCompletes \<Rightarrow> ([TLSDial \<lparr>Timeout = 0\<rparr> ''tcp'' (if URL_Port u = '''' then URL_Hostname u @ '':443'' else Host u) None], None)
      | CompletesAfter t certs \<Rightarrow>
          (if certs = []
           then ([TLSDial \<lparr>Timeout = 0\<rparr> ''tcp'' (if URL_Port u = '''' then URL_Hostname u @ '':443'' else Host u) None]
                   @ debug_print (Values_Get query ''debug'') NoCertificatesFound @ [ConnClose],
                 Some (http_Error ''No certificates found'' 500))
           else ([TLSDial \<lparr>Timeout = 0\<rparr> ''tcp'' (if URL_Port u = '''' then URL_Hostname u @ '':443'' else Host u) None, ConnClose],
                 Some \<lparr>status = 200,
                       written = ''SSL certificate for '' @ rawURL @ '' expires on ''
                                 @ Time_Format_RFC3339 e (x509_NotAfter (certs ! 0)) @ [CHR 0x0A]\<rparr>)))"
    by (intro handleRequest_accepted) blast+
  with a show "snd (handleRequest e query) = Some (http_Error ''No certificates found'' 500)"
    by simp
next
  show "status (http_Error ''No certificates found'' 500) = 500"
    by (simp add: http_Error_def)
next
  assume a: "snd (handleRequest e query) = Some hresp \<and> status hresp = 200"
  then have "snd (handleRequest e query) = Some hresp" "status hresp = 200" by simp_all
  from handleRequest_200 [OF this] show "\<exists>v s certs.
            url_Parse e (Values_Get query ''url'') = Inr v
          \<and> tls_peer e ''tcp'' (if URL_Port v = '''' then URL_Hostname v @ '':443'' else Host v) None
              = CompletesAfter s certs
          \<and> certs \<noteq> []
          \<and> written hresp = ''SSL certificate for '' @ Values_Get query ''url'' @ '' expires on ''
                             @ Time_Format_RFC3339 e (x509_NotAfter (certs ! 0)) @ [CHR 0x0A]"
    by blast
qed

theorem zero_certificates_is_an_error_witness:
  "(param (QueryStringParameters (request_of ''192.0.2.2'' ''https://example.com'')) ''ip'' = ''192.0.2.2''
      \<and> ''192.0.2.2'' \<noteq> ''''
      \<and> param (QueryStringParameters (request_of ''192.0.2.2'' ''https://example.com'')) ''url''
          = ''https://example.com''
      \<and> ''https://example.com'' \<noteq> ''''
      \<and> tls_peer example_env ''tcp'' (net_JoinHostPort ''192.0.2.2'' ''443'')
            (Some \<lparr>ServerName = handler_hostname example_env ''https://example.com'',
                   InsecureSkipVerify = True\<rparr>)
          = CompletesAfter 20000000 [] \<and> 20000000 < 5 * Second)
   \<and> snd (handler example_env (request_of ''192.0.2.2'' ''https://example.com''))
          = Some (createErrorResponse 500 ''Server did not provide any certificates.'')
   \<and> (snd (handler example_env example_request) = Some example_response
      \<and> StatusCode example_response = 200)
   \<and> (\<exists>dial verify payload.
            fst (handler example_env example_request)
              = [dial, verify, JSONMarshalIndent payload, ConnClose]
          \<and> json_MarshalIndent example_env payload = Inr (Body example_response)
          \<and> Certificates payload \<noteq> [])
   \<and> (Values_Get [''url'' \<mapsto> [''https://192.0.2.2'']] ''url'' = ''https://192.0.2.2''
      \<and> ''https://192.0.2.2'' \<noteq> ''''
      \<and> url_Parse example_env ''https://192.0.2.2'' = Inr \<lparr>Scheme = ''https'', Host = ''192.0.2.2''\<rparr>
      \<and> Scheme \<lparr>Scheme = ''https'', Host = ''192.0.2.2''\<rparr> = ''https''
      \<and> Host \<lparr>Scheme = ''https'', Host = ''192.0.2.2''\<rparr> \<noteq> ''''
      \<and> tls_peer example_env ''tcp''
            (if URL_Port \<lparr>Scheme = ''https'', Host = ''192.0.2.2''\<rparr> = ''''
             then URL_Hostname \<lparr>Scheme = ''https'', Host = ''192.0.2.2''\<rparr> @ '':443''
             else Host \<lparr>Scheme = ''https'', Host = ''192.0.2.2''\<rparr>) None
          = CompletesAfter 20000000 [])
   \<and> snd (handleRequest example_env [''url'' \<mapsto> [''https://192.0.2.2'']])
        = Some (http_Error ''No certificates found'' 500)
   \<and> (snd (handleRequest example_env example_query) = Some example_line
      \<and> status example_line = 200)
   \<and> (\<exists>v s certs.
            url_Parse example_env (Values_Get example_query ''url'') = Inr v
          \<and> tls_peer example_env ''tcp''
                (if URL_Port v = '''' then URL_Hostname v @ '':443'' else Host v) None
              = CompletesAfter s certs
          \<and> certs \<noteq> []
          \<and> written example_line
              = ''SSL certificate for '' @ Values_Get example_query ''url'' @ '' expires on ''
                @ Time_Format_RFC3339 example_env (x509_NotAfter (certs ! 0)) @ [CHR 0x0A])"
proof -
  have a: "param (QueryStringParameters (request_of ''192.0.2.2'' ''https://example.com'')) ''ip'' = ''192.0.2.2''
      \<and> ''192.0.2.2'' \<noteq> ''''
      \<and> param (QueryStringParameters (request_of ''192.0.2.2'' ''https://example.com'')) ''url''
          = ''https://example.com''
      \<and> ''https://example.com'' \<noteq> ''''
      \<and> tls_peer example_env ''tcp'' (net_JoinHostPort ''192.0.2.2'' ''443'')
            (Some \<lparr>ServerName = handler_hostname example_env ''https://example.com'',
                   InsecureSkipVerify = True\<rparr>)
          = CompletesAfter 20000000 [] \<and> 20000000 < 5 * Second"
    by (simp add: request_of_params net_JoinHostPort_def example_peers Second_def)
  have b: "snd (handler example_env example_request) = Some example_response
      \<and> StatusCode example_response = 200"
    by (simp add: example_snd example_response_def)
  have c: "Values_Get [''url'' \<mapsto> [''https://192.0.2.2'']] ''url'' = ''https://192.0.2.2''
      \<and> ''https://192.0.2.2'' \<noteq> ''''
      \<and> url_Parse example_env ''https://192.0.2.2'' = Inr \<lparr>Scheme = ''https'', Host = ''192.0.2.2''\<rparr>
      \<and> Scheme \<lparr>Scheme = ''https'', Host = ''192.0.2.2''\<rparr> = ''https''
      \<and> Host \<lparr>Scheme = ''https'', Host = ''192.0.2.2''\<rparr> \<noteq> ''''
      \<and> tls_peer example_env ''tcp''
            (if URL_Port \<lparr>Scheme = ''https'', Host = ''192.0.2.2''\<rparr> = ''''
             then URL_Hostname \<lparr>Scheme = ''https'', Host = ''192.0.2.2''\<rparr> @ '':443''
             else Host \<lparr>Scheme = ''https'', Host = ''192.0.2.2''\<rparr>) None
          = CompletesAfter 20000000 []"
    by (simp add: Values_Get_def example_parse URL_Port_def URL_Hostname_def example_ports
          example_peers)
  have d: "snd (handleRequest example_env example_query) = Some example_line
      \<and> status example_line = 200"
    by (simp add: example_line_snd example_line_def)
  note A = zero_certificates_is_an_error
      [where e = example_env and request = "request_of ''192.0.2.2'' ''https://example.com''"
         and ip = "''192.0.2.2''" and url = "''https://example.com''" and t = 20000000,
       THEN conjunct1, THEN mp, OF a, THEN conjunct1]
  note B = zero_certificates_is_an_error
      [where e = example_env and request = example_request and resp = example_response,
       THEN conjunct2, THEN conjunct1, THEN mp, OF b]
  note C = zero_certificates_is_an_error
      [where e = example_env and query = "[''url'' \<mapsto> [''https://192.0.2.2'']]"
         and rawURL = "''https://192.0.2.2''" and u = "\<lparr>Scheme = ''https'', Host = ''192.0.2.2''\<rparr>"
         and t' = 20000000,
       THEN conjunct2, THEN conjunct2, THEN conjunct1, THEN mp, OF c, THEN conjunct1]
  note D = zero_certificates_is_an_error
      [where e = example_env and query = example_query and hresp = example_line,
       THEN conjunct2, THEN conjunct2, THEN conjunct2, THEN mp, OF d]
  show ?thesis
    by (rule conjI [OF a conjI [OF A conjI [OF b conjI [OF B conjI [OF c conjI [OF C conjI [OF d D]]]]]]])
qed

subsection \<open>The handshake validates nothing\<close>

text \<open>
  C5. The one TLS dial of \<open>handler\<close> carries a configuration whose server name is the
  validation name and whose \<open>InsecureSkipVerify\<close> is set, so the handshake validates
  nothing, and nothing after it dials again. When the handshake completes in time with
  a non-empty chain, what follows the dial is exactly one verifier call on the
  validation name, against the pool of the certificates after the first and the host's
  roots (\<open>Roots\<close> unset), then the serialisation of a payload whose validation message
  is the canonical one when that call returned no error and the failure text when it
  returned one, then the close; and the answer is that payload serialised. Conversely an
  answer with status 200 is always the serialisation of a payload that follows such a
  verifier call and carries its verdict.
\<close>

theorem handshake_defers_validation:
  assumes ip: "param (QueryStringParameters request) ''ip'' = ip" "ip \<noteq> ''''"
    and url: "param (QueryStringParameters request) ''url'' = url" "url \<noteq> ''''"
  shows "\<exists>rest.
           fst (handler e request)
             = TLSDial \<lparr>Timeout = 5 * Second\<rparr> ''tcp'' (net_JoinHostPort ip ''443'')
                 (Some \<lparr>ServerName = handler_hostname e url, InsecureSkipVerify = True\<rparr>) # rest
         \<and> (\<forall>d n a c. TLSDial d n a c \<notin> set rest)
         \<and> (\<forall>cs opts. X509Verify cs opts \<in> set rest \<longrightarrow>
               DNSName opts = handler_hostname e url \<and> Roots opts = None)
         \<and> (\<forall>payload. JSONMarshalIndent payload \<in> set rest \<longrightarrow>
               (\<exists>cs opts. X509Verify cs opts \<in> set rest
                  \<and> (ChainValidation payload = ''Certificate chain is valid.''
                       \<longleftrightarrow> x509_Verify e cs opts = None)))
         \<and> (\<forall>t certs.
               tls_peer e ''tcp'' (net_JoinHostPort ip ''443'')
                 (Some \<lparr>ServerName = handler_hostname e url, InsecureSkipVerify = True\<rparr>)
               = CompletesAfter t certs \<and> t < 5 * Second \<and> certs \<noteq> [] \<longrightarrow>
               (\<exists>opts payload.
                  rest = [X509Verify certs opts, JSONMarshalIndent payload, ConnClose]
                \<and> DNSName opts = handler_hostname e url \<and> Roots opts = None
                \<and> set (Intermediates opts) = set (drop 1 certs)
                \<and> ChainValidation payload
                    = (case x509_Verify e certs opts of
                         None \<Rightarrow> ''Certificate chain is valid.''
                       | Some err \<Rightarrow> ''Certificate chain verification failed: '' @ err)
                \<and> snd (handler e request)
                    = Some (case json_MarshalIndent e payload of
                              Inl err \<Rightarrow> createErrorResponse 500 ''Failed to serialize response.''
                            | Inr jsonBody \<Rightarrow>
                                \<lparr>StatusCode = 200, Body = jsonBody,
                                 Headers = [''Content-Type'' \<mapsto> ''application/json'']\<rparr>)))
         \<and> (\<forall>resp. snd (handler e request) = Some resp \<and> StatusCode resp = 200 \<longrightarrow>
               (\<exists>cs opts payload.
                  rest = [X509Verify cs opts, JSONMarshalIndent payload, ConnClose]
                \<and> json_MarshalIndent e payload = Inr (Body resp)
                \<and> (ChainValidation payload = ''Certificate chain is valid.''
                       \<longleftrightarrow> x509_Verify e cs opts = None)))"
proof -
  let ?addr = "net_JoinHostPort ip ''443''"
  let ?cfg = "Some \<lparr>ServerName = handler_hostname e url, InsecureSkipVerify = True\<rparr>"
  from handler_calls [OF ip url, of e] obtain rest where
    calls: "fst (handler e request) = TLSDial \<lparr>Timeout = 5 * Second\<rparr> ''tcp'' ?addr ?cfg # rest"
    and nodial: "\<forall>d n a c. TLSDial d n a c \<notin> set rest"
    and verify: "\<forall>cs opts. X509Verify cs opts \<in> set rest \<longrightarrow>
               DNSName opts = handler_hostname e url \<and> Roots opts = None"
    and verdict: "\<forall>payload. JSONMarshalIndent payload \<in> set rest \<longrightarrow>
               (\<exists>cs opts. X509Verify cs opts \<in> set rest
                  \<and> (ChainValidation payload = ''Certificate chain is valid.''
                       \<longleftrightarrow> x509_Verify e cs opts = None))"
    by blast
  have run: "\<exists>opts payload.
                  rest = [X509Verify certs opts, JSONMarshalIndent payload, ConnClose]
                \<and> DNSName opts = handler_hostname e url \<and> Roots opts = None
                \<and> set (Intermediates opts) = set (drop 1 certs)
                \<and> ChainValidation payload
                    = (case x509_Verify e certs opts of
                         None \<Rightarrow> ''Certificate chain is valid.''
                       | Some err \<Rightarrow> ''Certificate chain verification failed: '' @ err)
                \<and> snd (handler e request)
                    = Some (case json_MarshalIndent e payload of
                              Inl err \<Rightarrow> createErrorResponse 500 ''Failed to serialize response.''
                            | Inr jsonBody \<Rightarrow>
                                \<lparr>StatusCode = 200, Body = jsonBody,
                                 Headers = [''Content-Type'' \<mapsto> ''application/json'']\<rparr>)"
    if peer: "tls_peer e ''tcp'' ?addr ?cfg = CompletesAfter t certs"
      and t: "t < 5 * Second" and certs: "certs \<noteq> []" for t certs
  proof -
    note est = handler_established [OF ip url peer t certs refl refl]
    let ?opts = "\<lparr>DNSName = handler_hostname e url,
                  Intermediates = intermediates_loop 0 certs NewCertPool, Roots = None\<rparr>"
    let ?payload = "\<lparr>TargetURL = ''https://'' @ handler_hostname e url,
                  Certificates = certInfos_loop e certs [],
                  ChainValidation = (case x509_Verify e certs ?opts of
                                None \<Rightarrow> ''Certificate chain is valid.''
                              | Some err \<Rightarrow> ''Certificate chain verification failed: '' @ err)\<rparr>"
    from calls est have rest: "rest = [X509Verify certs ?opts, JSONMarshalIndent ?payload, ConnClose]"
      by simp
    have pool: "set (Intermediates ?opts) = set (drop 1 certs)"
      by (simp add: intermediates_loop_0)
    have answer: "snd (handler e request)
                    = Some (case json_MarshalIndent e ?payload of
                              Inl err \<Rightarrow> createErrorResponse 500 ''Failed to serialize response.''
                            | Inr jsonBody \<Rightarrow>
                                \<lparr>StatusCode = 200, Body = jsonBody,
                                 Headers = [''Content-Type'' \<mapsto> ''application/json'']\<rparr>)"
      using est by simp
    have msg: "ChainValidation ?payload
                    = (case x509_Verify e certs ?opts of
                         None \<Rightarrow> ''Certificate chain is valid.''
                       | Some err \<Rightarrow> ''Certificate chain verification failed: '' @ err)"
      by simp
    have name: "DNSName ?opts = handler_hostname e url" and roots: "Roots ?opts = None"
      by simp_all
    show ?thesis
      by (rule exI [of _ ?opts], rule exI [of _ ?payload],
          rule conjI [OF rest conjI [OF name conjI [OF roots conjI [OF pool
                conjI [OF msg answer]]]]])
  qed
  have ok: "\<exists>cs opts payload.
                  rest = [X509Verify cs opts, JSONMarshalIndent payload, ConnClose]
                \<and> json_MarshalIndent e payload = Inr (Body resp)
                \<and> (ChainValidation payload = ''Certificate chain is valid.''
                       \<longleftrightarrow> x509_Verify e cs opts = None)"
    if resp: "snd (handler e request) = Some resp \<and> StatusCode resp = 200" for resp
  proof -
    from resp obtain calls' where h: "handler e request = (calls', Some resp)"
      by (cases "handler e request") simp
    from resp have st: "StatusCode resp = 200" by simp
    from handler_200 [OF h st] ip(1) url(1) obtain t certs where
      peer: "tls_peer e ''tcp'' ?addr ?cfg = CompletesAfter t certs"
      and t: "t < 5 * Second" and certs: "certs \<noteq> []"
      by auto
    from run [OF peer t certs] obtain opts payload where
      rest: "rest = [X509Verify certs opts, JSONMarshalIndent payload, ConnClose]"
      and msg: "ChainValidation payload
                    = (case x509_Verify e certs opts of
                         None \<Rightarrow> ''Certificate chain is valid.''
                       | Some err \<Rightarrow> ''Certificate chain verification failed: '' @ err)"
      and answer: "snd (handler e request)
                    = Some (case json_MarshalIndent e payload of
                              Inl err \<Rightarrow> createErrorResponse 500 ''Failed to serialize response.''
                            | Inr jsonBody \<Rightarrow>
                                \<lparr>StatusCode = 200, Body = jsonBody,
                                 Headers = [''Content-Type'' \<mapsto> ''application/json'']\<rparr>)"
      by blast
    from answer resp have body: "json_MarshalIndent e payload = Inr (Body resp)"
      by (auto simp: createErrorResponse_def split: sum.splits)
    from msg have iff: "ChainValidation payload = ''Certificate chain is valid.''
                       \<longleftrightarrow> x509_Verify e certs opts = None"
      by (simp split: option.splits)
    show ?thesis
      by (rule exI [of _ certs], rule exI [of _ opts], rule exI [of _ payload],
          rule conjI [OF rest conjI [OF body iff]])
  qed
  have run_all: "\<forall>t certs.
               tls_peer e ''tcp'' ?addr ?cfg = CompletesAfter t certs \<and> t < 5 * Second \<and> certs \<noteq> [] \<longrightarrow>
               (\<exists>opts payload.
                  rest = [X509Verify certs opts, JSONMarshalIndent payload, ConnClose]
                \<and> DNSName opts = handler_hostname e url \<and> Roots opts = None
                \<and> set (Intermediates opts) = set (drop 1 certs)
                \<and> ChainValidation payload
                    = (case x509_Verify e certs opts of
                         None \<Rightarrow> ''Certificate chain is valid.''
                       | Some err \<Rightarrow> ''Certificate chain verification failed: '' @ err)
                \<and> snd (handler e request)
                    = Some (case json_MarshalIndent e payload of
                              Inl err \<Rightarrow> createErrorResponse 500 ''Failed to serialize response.''
                            | Inr jsonBody \<Rightarrow>
                                \<lparr>StatusCode = 200, Body = jsonBody,
                                 Headers = [''Content-Type'' \<mapsto> ''application/json'']\<rparr>))"
    by (intro allI impI, elim conjE, rule run)
  have ok_all: "\<forall>resp. snd (handler e request) = Some resp \<and> StatusCode resp = 200 \<longrightarrow>
               (\<exists>cs opts payload.
                  rest = [X509Verify cs opts, JSONMarshalIndent payload, ConnClose]
                \<and> json_MarshalIndent e payload = Inr (Body resp)
                \<and> (ChainValidation payload = ''Certificate chain is valid.''
                       \<longleftrightarrow> x509_Verify e cs opts = None))"
    by (intro allI impI, rule ok)
  show ?thesis
    by (rule exI [of _ rest],
        rule conjI [OF calls conjI [OF nodial conjI [OF verify conjI [OF verdict
              conjI [OF run_all ok_all]]]]])
qed

theorem handshake_defers_validation_witness:
  "param (QueryStringParameters example_request) ''ip'' = ''93.184.216.34''
   \<and> ''93.184.216.34'' \<noteq> ''''
   \<and> param (QueryStringParameters example_request) ''url'' = ''https://example.com''
   \<and> ''https://example.com'' \<noteq> ''''
   \<and> tls_peer example_env ''tcp'' (net_JoinHostPort ''93.184.216.34'' ''443'')
        (Some \<lparr>ServerName = handler_hostname example_env ''https://example.com'',
               InsecureSkipVerify = True\<rparr>)
      = CompletesAfter 20000000 [leaf_cert, ca_cert]
   \<and> 20000000 < 5 * Second
   \<and> [leaf_cert, ca_cert] \<noteq> []
   \<and> snd (handler example_env example_request) = Some example_response
   \<and> StatusCode example_response = 200
   \<and> (\<exists>rest opts payload.
           fst (handler example_env example_request)
             = TLSDial \<lparr>Timeout = 5 * Second\<rparr> ''tcp'' (net_JoinHostPort ''93.184.216.34'' ''443'')
                 (Some \<lparr>ServerName = handler_hostname example_env ''https://example.com'',
                        InsecureSkipVerify = True\<rparr>) # rest
         \<and> rest = [X509Verify [leaf_cert, ca_cert] opts, JSONMarshalIndent payload, ConnClose]
         \<and> DNSName opts = ''example.com'' \<and> Roots opts = None
         \<and> set (Intermediates opts) = set (drop 1 [leaf_cert, ca_cert])
         \<and> x509_Verify example_env [leaf_cert, ca_cert] opts = None
         \<and> ChainValidation payload = ''Certificate chain is valid.''
         \<and> json_MarshalIndent example_env payload = Inr (Body example_response))"
proof -
  let ?addr = "net_JoinHostPort ''93.184.216.34'' ''443''"
  let ?cfg = "Some \<lparr>ServerName = handler_hostname example_env ''https://example.com'',
               InsecureSkipVerify = True\<rparr>"
  have h2: "''93.184.216.34'' \<noteq> ''''" and h4: "''https://example.com'' \<noteq> ''''" by simp_all
  have h5: "tls_peer example_env ''tcp'' ?addr ?cfg = CompletesAfter 20000000 [leaf_cert, ca_cert]"
    by (simp add: example_address example_peer_completes)
  have h6: "(20000000::int) < 5 * Second" by (simp add: Second_def)
  have h7: "[leaf_cert, ca_cert] \<noteq> []" by simp
  have h9: "StatusCode example_response = 200" by (simp add: example_response_def)
  from handshake_defers_validation [OF example_params(1) h2 example_params(2) h4, of example_env]
  obtain rest where
    calls: "fst (handler example_env example_request)
             = TLSDial \<lparr>Timeout = 5 * Second\<rparr> ''tcp'' ?addr ?cfg # rest"
    and run: "\<forall>t certs.
               tls_peer example_env ''tcp'' ?addr ?cfg = CompletesAfter t certs
               \<and> t < 5 * Second \<and> certs \<noteq> [] \<longrightarrow>
               (\<exists>opts payload.
                  rest = [X509Verify certs opts, JSONMarshalIndent payload, ConnClose]
                \<and> DNSName opts = handler_hostname example_env ''https://example.com''
                \<and> Roots opts = None
                \<and> set (Intermediates opts) = set (drop 1 certs)
                \<and> ChainValidation payload
                    = (case x509_Verify example_env certs opts of
                         None \<Rightarrow> ''Certificate chain is valid.''
                       | Some err \<Rightarrow> ''Certificate chain verification failed: '' @ err)
                \<and> snd (handler example_env example_request)
                    = Some (case json_MarshalIndent example_env payload of
                              Inl err \<Rightarrow> createErrorResponse 500 ''Failed to serialize response.''
                            | Inr jsonBody \<Rightarrow>
                                \<lparr>StatusCode = 200, Body = jsonBody,
                                 Headers = [''Content-Type'' \<mapsto> ''application/json'']\<rparr>))"
    and ok: "\<forall>resp. snd (handler example_env example_request) = Some resp
               \<and> StatusCode resp = 200 \<longrightarrow>
               (\<exists>cs opts payload.
                  rest = [X509Verify cs opts, JSONMarshalIndent payload, ConnClose]
                \<and> json_MarshalIndent example_env payload = Inr (Body resp)
                \<and> (ChainValidation payload = ''Certificate chain is valid.''
                       \<longleftrightarrow> x509_Verify example_env cs opts = None))"
    by (elim exE conjE)
  from run [THEN spec, THEN spec, THEN mp, OF conjI [OF h5 conjI [OF h6 h7]]]
  obtain opts payload where
    rest: "rest = [X509Verify [leaf_cert, ca_cert] opts, JSONMarshalIndent payload, ConnClose]"
    and name: "DNSName opts = handler_hostname example_env ''https://example.com''"
    and roots: "Roots opts = None"
    and pool: "set (Intermediates opts) = set (drop 1 [leaf_cert, ca_cert])"
    by (elim exE conjE)
  from ok [THEN spec, THEN mp, OF conjI [OF example_snd h9]]
  obtain cs opts' payload' where
    rest': "rest = [X509Verify cs opts', JSONMarshalIndent payload', ConnClose]"
    and body': "json_MarshalIndent example_env payload' = Inr (Body example_response)"
    and iff': "ChainValidation payload' = ''Certificate chain is valid.''
                       \<longleftrightarrow> x509_Verify example_env cs opts' = None"
    by (elim exE conjE)
  from rest rest' have same: "cs = [leaf_cert, ca_cert]" "opts' = opts" "payload' = payload"
    by simp_all
  from name have name': "DNSName opts = ''example.com''" by (simp add: example_hostname)
  then have valid: "x509_Verify example_env [leaf_cert, ca_cert] opts = None"
    by (simp add: example_env_def leaf_cert_def)
  with iff' same have msg: "ChainValidation payload = ''Certificate chain is valid.''" by simp
  from body' same have body: "json_MarshalIndent example_env payload = Inr (Body example_response)"
    by simp
  have concl: "\<exists>rest opts payload.
           fst (handler example_env example_request)
             = TLSDial \<lparr>Timeout = 5 * Second\<rparr> ''tcp'' ?addr ?cfg # rest
         \<and> rest = [X509Verify [leaf_cert, ca_cert] opts, JSONMarshalIndent payload, ConnClose]
         \<and> DNSName opts = ''example.com'' \<and> Roots opts = None
         \<and> set (Intermediates opts) = set (drop 1 [leaf_cert, ca_cert])
         \<and> x509_Verify example_env [leaf_cert, ca_cert] opts = None
         \<and> ChainValidation payload = ''Certificate chain is valid.''
         \<and> json_MarshalIndent example_env payload = Inr (Body example_response)"
    by (rule exI [of _ rest], rule exI [of _ opts], rule exI [of _ payload],
        rule conjI [OF calls conjI [OF rest conjI [OF name' conjI [OF roots conjI [OF pool
              conjI [OF valid conjI [OF msg body]]]]]]])
  show ?thesis
    by (rule conjI [OF example_params(1) conjI [OF h2 conjI [OF example_params(2) conjI [OF h4
          conjI [OF h5 conjI [OF h6 conjI [OF h7 conjI [OF example_snd conjI [OF h9 concl]]]]]]]]])
qed

subsection \<open>Dial address and validation name\<close>

text \<open>
  C6 at \<open>ip=93.184.216.34\<close>, \<open>url=example.com/path\<close>. Go's \<open>url.Parse\<close> takes a
  string with no scheme and no \<open>//\<close> for a bare path: the parse succeeds with an empty
  host. The guard on line 54 then leaves the parameter as it is, although the comment on
  line 52 says the block extracts only the host name: the path is not stripped, and
  \<open>example.com/path\<close>, not \<open>example.com\<close>, is the server name of the dial, the name
  the verifier checks and what follows \<open>https://\<close> in the target URL.
\<close>

theorem path_kept_in_server_name:
  "url_Parse example_env ''example.com/path'' = Inr \<lparr>Scheme = '''', Host = ''''\<rparr>
   \<and> fst (handler example_env (request_of ''93.184.216.34'' ''example.com/path''))
       = [TLSDial \<lparr>Timeout = 5 * Second\<rparr> ''tcp'' ''93.184.216.34:443''
            (Some \<lparr>ServerName = ''example.com/path'', InsecureSkipVerify = True\<rparr>),
          X509Verify [leaf_cert, ca_cert]
            \<lparr>DNSName = ''example.com/path'', Intermediates = [ca_cert], Roots = None\<rparr>,
          JSONMarshalIndent
            \<lparr>TargetURL = ''https://example.com/path'',
             Certificates = certInfos_loop example_env [leaf_cert, ca_cert] [],
             ChainValidation = ''Certificate chain verification failed: ''
                @ ''x509: certificate is not valid for the requested name''\<rparr>,
          ConnClose]
   \<and> ''example.com/path'' \<noteq> ''example.com''"
proof -
  have h2: "''93.184.216.34'' \<noteq> ''''" and h4: "''example.com/path'' \<noteq> ''''" by simp_all
  have h5: "tls_peer example_env ''tcp'' (net_JoinHostPort ''93.184.216.34'' ''443'')
        (Some \<lparr>ServerName = handler_hostname example_env ''example.com/path'',
               InsecureSkipVerify = True\<rparr>)
      = CompletesAfter 20000000 [leaf_cert, ca_cert]"
    by (simp add: example_address example_peer_completes)
  have h6: "(20000000::int) < 5 * Second" by (simp add: Second_def)
  have h7: "[leaf_cert, ca_cert] \<noteq> []" by simp
  note est = handler_established
      [OF request_of_params(1) h2 request_of_params(2) h4 h5 h6 h7 refl refl]
  show ?thesis
    unfolding est fst_conv
    by (simp add: example_parse example_fallback example_address NewCertPool_def AddCert_def)
qed

subsection \<open>One summary per certificate\<close>

text \<open>
  C7. When the peer presents a non-empty chain, the payload holds one summary per
  certificate, in the order presented: the summary at index \<open>i\<close> is built from the
  certificate at index \<open>i\<close>, and its two timestamps are the certificate's instants
  with the location set to UTC. The response is status 200 with the serialised payload
  whenever serialisation succeeds.
\<close>

theorem summaries_follow_the_chain:
  assumes ip: "param (QueryStringParameters request) ''ip'' = ip" "ip \<noteq> ''''"
    and url: "param (QueryStringParameters request) ''url'' = url" "url \<noteq> ''''"
    and peer: "tls_peer e ''tcp'' (net_JoinHostPort ip ''443'')
                 (Some \<lparr>ServerName = handler_hostname e url, InsecureSkipVerify = True\<rparr>)
               = CompletesAfter t certs"
    and t: "t < 5 * Second"
    and certs: "certs \<noteq> []"
  shows "\<exists>dial verify payload.
           fst (handler e request) = [dial, verify, JSONMarshalIndent payload, ConnClose]
         \<and> (\<forall>body. json_MarshalIndent e payload = Inr body \<longrightarrow>
               snd (handler e request)
                 = Some \<lparr>StatusCode = 200, Body = body,
                         Headers = [''Content-Type'' \<mapsto> ''application/json'']\<rparr>)
         \<and> length (Certificates payload) = length certs
         \<and> (\<forall>i. i < length certs \<longrightarrow>
               Subject (Certificates payload ! i) = Name_String e (x509_Subject (certs ! i))
             \<and> Issuer (Certificates payload ! i) = Name_String e (x509_Issuer (certs ! i))
             \<and> IsCA (Certificates payload ! i) = x509_IsCA (certs ! i)
             \<and> SignatureAlgo (Certificates payload ! i)
                 = SignatureAlgorithm_String e (x509_SignatureAlgorithm (certs ! i))
             \<and> loc (NotBefore (Certificates payload ! i)) = UTC
             \<and> unixNano (NotBefore (Certificates payload ! i)) = unixNano (x509_NotBefore (certs ! i))
             \<and> loc (NotAfter (Certificates payload ! i)) = UTC
             \<and> unixNano (NotAfter (Certificates payload ! i)) = unixNano (x509_NotAfter (certs ! i)))"
proof -
  note est = handler_established [OF ip url peer t certs refl refl]
  let ?infos = "certInfos_loop e certs []"
  have each: "Subject (?infos ! i) = Name_String e (x509_Subject (certs ! i))
             \<and> Issuer (?infos ! i) = Name_String e (x509_Issuer (certs ! i))
             \<and> IsCA (?infos ! i) = x509_IsCA (certs ! i)
             \<and> SignatureAlgo (?infos ! i)
                 = SignatureAlgorithm_String e (x509_SignatureAlgorithm (certs ! i))
             \<and> loc (NotBefore (?infos ! i)) = UTC
             \<and> unixNano (NotBefore (?infos ! i)) = unixNano (x509_NotBefore (certs ! i))
             \<and> loc (NotAfter (?infos ! i)) = UTC
             \<and> unixNano (NotAfter (?infos ! i)) = unixNano (x509_NotAfter (certs ! i))"
    if "i < length certs" for i
  proof (cases i)
    case 0
    then show ?thesis using certs by (simp add: certInfos_first summary_def Time_UTC_def)
  next
    case (Suc j)
    then have "1 \<le> i" by simp
    from certInfos_later [OF this that] show ?thesis by (simp add: summary_def Time_UTC_def)
  qed
  show ?thesis
    unfolding est fst_conv snd_conv
    by (intro exI conjI allI impI; (rule refl)?) (simp_all add: certInfos_length each)
qed

theorem summaries_follow_the_chain_witness:
  "param (QueryStringParameters example_request) ''ip'' = ''93.184.216.34''
   \<and> ''93.184.216.34'' \<noteq> ''''
   \<and> param (QueryStringParameters example_request) ''url'' = ''https://example.com''
   \<and> ''https://example.com'' \<noteq> ''''
   \<and> tls_peer example_env ''tcp'' (net_JoinHostPort ''93.184.216.34'' ''443'')
        (Some \<lparr>ServerName = handler_hostname example_env ''https://example.com'',
               InsecureSkipVerify = True\<rparr>)
      = CompletesAfter 20000000 [leaf_cert, ca_cert]
   \<and> 20000000 < 5 * Second
   \<and> [leaf_cert, ca_cert] \<noteq> []
   \<and> (\<exists>dial verify payload.
           fst (handler example_env example_request)
             = [dial, verify, JSONMarshalIndent payload, ConnClose]
         \<and> (\<forall>body. json_MarshalIndent example_env payload = Inr body \<longrightarrow>
               snd (handler example_env example_request)
                 = Some \<lparr>StatusCode = 200, Body = body,
                         Headers = [''Content-Type'' \<mapsto> ''application/json'']\<rparr>)
         \<and> length (Certificates payload) = length [leaf_cert, ca_cert]
         \<and> (\<forall>i. i < length [leaf_cert, ca_cert] \<longrightarrow>
               Subject (Certificates payload ! i)
                 = Name_String example_env (x509_Subject ([leaf_cert, ca_cert] ! i))
             \<and> Issuer (Certificates payload ! i)
                 = Name_String example_env (x509_Issuer ([leaf_cert, ca_cert] ! i))
             \<and> IsCA (Certificates payload ! i) = x509_IsCA ([leaf_cert, ca_cert] ! i)
             \<and> SignatureAlgo (Certificates payload ! i)
                 = SignatureAlgorithm_String example_env
                     (x509_SignatureAlgorithm ([leaf_cert, ca_cert] ! i))
             \<and> loc (NotBefore (Certificates payload ! i)) = UTC
             \<and> unixNano (NotBefore (Certificates payload ! i))
                 = unixNano (x509_NotBefore ([leaf_cert, ca_cert] ! i))
             \<and> loc (NotAfter (Certificates payload ! i)) = UTC
             \<and> unixNano (NotAfter (Certificates payload ! i))
                 = unixNano (x509_NotAfter ([leaf_cert, ca_cert] ! i))))"
proof -
  have h2: "''93.184.216.34'' \<noteq> ''''" and h4: "''https://example.com'' \<noteq> ''''" by simp_all
  have h5: "tls_peer example_env ''tcp'' (net_JoinHostPort ''93.184.216.34'' ''443'')
        (Some \<lparr>ServerName = handler_hostname example_env ''https://example.com'',
               InsecureSkipVerify = True\<rparr>)
      = CompletesAfter 20000000 [leaf_cert, ca_cert]"
    by (simp add: example_address example_peer_completes)
  have h6: "(20000000::int) < 5 * Second" by (simp add: Second_def)
  have h7: "[leaf_cert, ca_cert] \<noteq> []" by simp
  note T = summaries_follow_the_chain [OF example_params(1) h2 example_params(2) h4 h5 h6 h7]
  from example_params h2 h4 h5 h6 h7 T show ?thesis by (intro conjI)
qed

subsection \<open>The dial target of Endpoint B\<close>

text \<open>
  C8 at three requests. With an explicit port, \<open>https://example.com:8443/path\<close>, the
  dial goes to \<open>example.com:8443\<close>, host and port as the claim says, and with scheme
  \<open>http\<close> the answer is 400 and nothing is dialled. With no port and an IPv6 literal
  for host, \<open>https://[::1]\<close>, lines 199 to 201 append \<open>:443\<close> to \<open>Hostname()\<close>,
  which has dropped the brackets: the dial target is \<open>::1:443\<close>, not the host and port
  \<open>[::1]:443\<close> that the other branch keeps and \<open>net.JoinHostPort\<close> would build, and
  no dial to it can succeed.
\<close>

theorem endpoint_b_ipv6_dial_target:
  "hd (fst (handleRequest example_env [''url'' \<mapsto> [''https://example.com:8443/path'']]))
     = TLSDial \<lparr>Timeout = 0\<rparr> ''tcp'' ''example.com:8443'' None
   \<and> handleRequest example_env [''url'' \<mapsto> [''http://example.com'']]
     = ([], Some (http_Error ''Invalid 'url' format. Example: https://example.com:8443'' 400))
   \<and> url_Parse example_env ''https://[::1]'' = Inr \<lparr>Scheme = ''https'', Host = ''[::1]''\<rparr>
   \<and> URL_Port \<lparr>Scheme = ''https'', Host = ''[::1]''\<rparr> = ''''
   \<and> URL_Hostname \<lparr>Scheme = ''https'', Host = ''[::1]''\<rparr> = ''::1''
   \<and> handleRequest example_env [''url'' \<mapsto> [''https://[::1]'']]
     = ([TLSDial \<lparr>Timeout = 0\<rparr> ''tcp'' ''::1:443'' None],
        Some (http_Error ''Failed to connect to the server'' 500))
   \<and> net_JoinHostPort ''::1'' ''443'' = ''[::1]:443''
   \<and> ''::1:443'' \<noteq> ''[::1]:443''"
proof -
  let ?u1 = "\<lparr>Scheme = ''https'', Host = ''example.com:8443''\<rparr>"
  let ?u6 = "\<lparr>Scheme = ''https'', Host = ''[::1]''\<rparr>"
  have g1: "Values_Get [''url'' \<mapsto> [''https://example.com:8443/path'']] ''url''
              = ''https://example.com:8443/path''"
    and g3: "Values_Get [''url'' \<mapsto> [''http://example.com'']] ''url'' = ''http://example.com''"
    and g6: "Values_Get [''url'' \<mapsto> [''https://[::1]'']] ''url'' = ''https://[::1]''"
    by (simp_all add: Values_Get_def)
  have d3: "Values_Get [''url'' \<mapsto> [''http://example.com'']] ''debug'' = ''''"
    and d6: "Values_Get [''url'' \<mapsto> [''https://[::1]'']] ''debug'' = ''''"
    by (simp_all add: Values_Get_def)
  have host1: "''example.com:8443''
        = (if URL_Port ?u1 = '''' then URL_Hostname ?u1 @ '':443'' else Host ?u1)"
    by (simp add: URL_Port_def example_ports)
  have host6: "''::1:443''
        = (if URL_Port ?u6 = '''' then URL_Hostname ?u6 @ '':443'' else Host ?u6)"
    by (simp add: URL_Port_def URL_Hostname_def example_ports)
  have A: "hd (fst (handleRequest example_env [''url'' \<mapsto> [''https://example.com:8443/path'']]))
     = TLSDial \<lparr>Timeout = 0\<rparr> ''tcp'' ''example.com:8443'' None"
    by (simp add: handleRequest_accepted [OF g1 _ example_parse(4) _ _ host1] example_peers)
  have B: "handleRequest example_env [''url'' \<mapsto> [''http://example.com'']]
     = ([], Some (http_Error ''Invalid 'url' format. Example: https://example.com:8443'' 400))"
    using handleRequest_rejected [OF g3, of example_env]
    by (simp add: example_parse d3 debug_print_def)
  have C: "handleRequest example_env [''url'' \<mapsto> [''https://[::1]'']]
     = ([TLSDial \<lparr>Timeout = 0\<rparr> ''tcp'' ''::1:443'' None],
        Some (http_Error ''Failed to connect to the server'' 500))"
    by (simp add: handleRequest_accepted [OF g6 _ example_parse(7) _ _ host6] example_peers
          d6 debug_print_def)
  have P: "URL_Port ?u6 = ''''" and H: "URL_Hostname ?u6 = ''::1''"
    by (simp_all add: URL_Port_def URL_Hostname_def example_ports)
  have J: "net_JoinHostPort ''::1'' ''443'' = ''[::1]:443''"
    by (simp add: net_JoinHostPort_def)
  have N: "''::1:443'' \<noteq> ''[::1]:443''" by simp
  show ?thesis
    by (rule conjI [OF A conjI [OF B conjI [OF example_parse(7) conjI [OF P conjI [OF H
          conjI [OF C conjI [OF J N]]]]]]])
qed

theorem endpoint_b_ipv6_dial_target_witness:
  "fst (handleRequest example_env [''url'' \<mapsto> [''https://[::1]'']])
     = [TLSDial \<lparr>Timeout = 0\<rparr> ''tcp'' ''::1:443'' None]
   \<and> ''::1:443'' \<noteq> net_JoinHostPort ''::1'' ''443''"
  using endpoint_b_ipv6_dial_target by simp

subsection \<open>The dial timeout\<close>

text \<open>
  C9 fails as stated, at Endpoint B. \<open>handleRequest\<close> dials with \<open>tls.Dial\<close>, whose
  dialer has no timeout: at a peer that accepts the connection and never completes the
  handshake the call does not return, and no answer is written.
\<close>

theorem endpoint_b_waits_forever_counterexample:
  "tls_peer example_env ''tcp'' ''192.0.2.1:443'' None = NeverCompletes
   \<and> handleRequest example_env [''url'' \<mapsto> [''https://192.0.2.1'']]
       = ([TLSDial \<lparr>Timeout = 0\<rparr> ''tcp'' ''192.0.2.1:443'' None], None)"
proof -
  let ?u = "\<lparr>Scheme = ''https'', Host = ''192.0.2.1''\<rparr>"
  have get: "Values_Get [''url'' \<mapsto> [''https://192.0.2.1'']] ''url'' = ''https://192.0.2.1''"
    by (simp add: Values_Get_def)
  have host: "''192.0.2.1:443''
        = (if URL_Port ?u = '''' then URL_Hostname ?u @ '':443'' else Host ?u)"
    by (simp add: URL_Port_def URL_Hostname_def example_ports)
  note acc = handleRequest_accepted [OF get _ example_parse(2) _ _ host]
  show ?thesis
    by (simp add: acc example_peers)
qed

text \<open>
  C9, as amended. \<open>handler\<close> always returns, every dial it makes carries the timeout of
  5 seconds (5000000000 nanoseconds), and a peer that never completes the handshake, or
  completes it only after 5 seconds or more, gets the answer 500 with the connection
  error. Nothing is said of \<open>handleRequest\<close>, which dials with no timeout.
\<close>

theorem handler_dial_is_bounded:
  "(\<exists>resp. snd (handler e request) = Some resp)
   \<and> (\<forall>d n a c. TLSDial d n a c \<in> set (fst (handler e request)) \<longrightarrow> Timeout d = 5000000000)
   \<and> (param (QueryStringParameters request) ''ip'' = ip \<and> ip \<noteq> ''''
        \<and> param (QueryStringParameters request) ''url'' = url \<and> url \<noteq> ''''
        \<and> (tls_peer e ''tcp'' (net_JoinHostPort ip ''443'')
              (Some \<lparr>ServerName = handler_hostname e url, InsecureSkipVerify = True\<rparr>)
             = NeverCompletes
           \<or> (\<exists>t certs. tls_peer e ''tcp'' (net_JoinHostPort ip ''443'')
                  (Some \<lparr>ServerName = handler_hostname e url, InsecureSkipVerify = True\<rparr>)
                 = CompletesAfter t certs \<and> 5000000000 \<le> t))
      \<longrightarrow> snd (handler e request)
            = Some (createErrorResponse 500 (''Failed to connect via TLS: '' @ dial_timeout_error e))
        \<and> StatusCode (createErrorResponse 500
             (''Failed to connect via TLS: '' @ dial_timeout_error e)) = 500)"
proof (intro conjI impI allI)
  show "\<exists>resp. snd (handler e request) = Some resp" by (rule handler_returns)
next
  fix d n a c
  assume dial: "TLSDial d n a c \<in> set (fst (handler e request))"
  let ?ip = "param (QueryStringParameters request) ''ip''"
  let ?url = "param (QueryStringParameters request) ''url''"
  have params: "?ip \<noteq> '''' \<and> ?url \<noteq> ''''"
    using dial handler_missing [of request e] by auto
  then have ip: "?ip \<noteq> ''''" and url: "?url \<noteq> ''''" by simp_all
  from handler_calls [OF refl ip refl url, of e] dial
  have "d = \<lparr>Timeout = 5 * Second\<rparr>" by auto
  then show "Timeout d = 5000000000" by (simp add: Second_def)
next
  assume a: "param (QueryStringParameters request) ''ip'' = ip \<and> ip \<noteq> ''''
        \<and> param (QueryStringParameters request) ''url'' = url \<and> url \<noteq> ''''
        \<and> (tls_peer e ''tcp'' (net_JoinHostPort ip ''443'')
              (Some \<lparr>ServerName = handler_hostname e url, InsecureSkipVerify = True\<rparr>)
             = NeverCompletes
           \<or> (\<exists>t certs. tls_peer e ''tcp'' (net_JoinHostPort ip ''443'')
                  (Some \<lparr>ServerName = handler_hostname e url, InsecureSkipVerify = True\<rparr>)
                 = CompletesAfter t certs \<and> 5000000000 \<le> t))"
  then have "tls_DialWithDialer e \<lparr>Timeout = 5 * Second\<rparr> ''tcp'' (net_JoinHostPort ip ''443'')
              (Some \<lparr>ServerName = handler_hostname e url, InsecureSkipVerify = True\<rparr>)
           = Some (Inl (dial_timeout_error e))"
    by (intro dial_late) (auto simp: Second_def)
  with a show "snd (handler e request)
            = Some (createErrorResponse 500 (''Failed to connect via TLS: '' @ dial_timeout_error e))"
    by (simp add: handler_def Let_def)
next
  show "StatusCode (createErrorResponse 500
             (''Failed to connect via TLS: '' @ dial_timeout_error e)) = 500"
    by (simp add: createErrorResponse_def)
qed

theorem handler_dial_is_bounded_witness:
  "(param (QueryStringParameters (request_of ''192.0.2.1'' ''https://example.com'')) ''ip''
        = ''192.0.2.1''
      \<and> ''192.0.2.1'' \<noteq> ''''
      \<and> param (QueryStringParameters (request_of ''192.0.2.1'' ''https://example.com'')) ''url''
        = ''https://example.com''
      \<and> ''https://example.com'' \<noteq> ''''
      \<and> (tls_peer example_env ''tcp'' (net_JoinHostPort ''192.0.2.1'' ''443'')
              (Some \<lparr>ServerName = handler_hostname example_env ''https://example.com'',
                     InsecureSkipVerify = True\<rparr>)
             = NeverCompletes
           \<or> (\<exists>t certs. tls_peer example_env ''tcp'' (net_JoinHostPort ''192.0.2.1'' ''443'')
                  (Some \<lparr>ServerName = handler_hostname example_env ''https://example.com'',
                         InsecureSkipVerify = True\<rparr>)
                 = CompletesAfter t certs \<and> 5000000000 \<le> t)))
   \<and> TLSDial \<lparr>Timeout = 5 * Second\<rparr> ''tcp'' ''192.0.2.1:443''
          (Some \<lparr>ServerName = ''example.com'', InsecureSkipVerify = True\<rparr>)
        \<in> set (fst (handler example_env (request_of ''192.0.2.1'' ''https://example.com'')))
   \<and> Timeout \<lparr>Timeout = 5 * Second\<rparr> = 5000000000
   \<and> snd (handler example_env (request_of ''192.0.2.1'' ''https://example.com''))
        = Some (createErrorResponse 500 (''Failed to connect via TLS: '' @ ''i/o timeout''))"
proof -
  let ?req = "request_of ''192.0.2.1'' ''https://example.com''"
  have stall: "tls_peer example_env ''tcp'' (net_JoinHostPort ''192.0.2.1'' ''443'')
              (Some \<lparr>ServerName = handler_hostname example_env ''https://example.com'',
                     InsecureSkipVerify = True\<rparr>) = NeverCompletes"
    by (simp add: net_JoinHostPort_def example_peers)
  have a: "param (QueryStringParameters ?req) ''ip'' = ''192.0.2.1''
      \<and> ''192.0.2.1'' \<noteq> ''''
      \<and> param (QueryStringParameters ?req) ''url'' = ''https://example.com''
      \<and> ''https://example.com'' \<noteq> ''''
      \<and> (tls_peer example_env ''tcp'' (net_JoinHostPort ''192.0.2.1'' ''443'')
              (Some \<lparr>ServerName = handler_hostname example_env ''https://example.com'',
                     InsecureSkipVerify = True\<rparr>)
             = NeverCompletes
           \<or> (\<exists>t certs. tls_peer example_env ''tcp'' (net_JoinHostPort ''192.0.2.1'' ''443'')
                  (Some \<lparr>ServerName = handler_hostname example_env ''https://example.com'',
                         InsecureSkipVerify = True\<rparr>)
                 = CompletesAfter t certs \<and> 5000000000 \<le> t))"
    using request_of_params [of "''192.0.2.1''" "''https://example.com''"] stall by simp
  note T = handler_dial_is_bounded [where e = example_env and request = ?req
             and ip = "''192.0.2.1''" and url = "''https://example.com''"]
  have err: "dial_timeout_error example_env = ''i/o timeout''"
    by (simp add: example_env_def)
  note answer = T [THEN conjunct2, THEN conjunct2, THEN mp, OF a, THEN conjunct1, unfolded err]
  have "handler example_env ?req
      = ([TLSDial \<lparr>Timeout = 5 * Second\<rparr> ''tcp'' ''192.0.2.1:443''
          (Some \<lparr>ServerName = ''example.com'', InsecureSkipVerify = True\<rparr>)],
         Some (createErrorResponse 500 (''Failed to connect via TLS: '' @ ''i/o timeout'')))"
    using dial_late [OF disjI1, OF stall]
    by (simp add: handler_def Let_def request_of_params example_hostname net_JoinHostPort_def err)
  then have dial: "TLSDial \<lparr>Timeout = 5 * Second\<rparr> ''tcp'' ''192.0.2.1:443''
          (Some \<lparr>ServerName = ''example.com'', InsecureSkipVerify = True\<rparr>)
        \<in> set (fst (handler example_env ?req))" by simp
  from T dial have timeout: "Timeout \<lparr>Timeout = 5 * Second\<rparr> = 5000000000" by blast
  show ?thesis
    by (rule conjI [OF a conjI [OF dial conjI [OF timeout answer]]])
qed

subsection \<open>The port of the url parameter\<close>



end
